theory Spec2Isabelle
  imports Complex_Main
begin

section \<open>Values, errors and entities\<close>

text \<open>
  JSON values as they arrive in a request body. Numbers are rationals: every finite
  JSON number is one, and \<open>Number.isInteger\<close> is then membership in the integers.
\<close>

datatype jsval =
    JUndefined
  | JNull
  | JBool bool
  | JNum rat
  | JStr string
  | JArr "jsval list"
  | JObj "(string \<times> jsval) list"

text \<open>
  \<open>MedusaError.Types\<close>; the handlers under \<open>src/\<close> throw \<open>INVALID_DATA\<close> only, the
  collaborators may throw any of them. A \<open>TypeError\<close> is what the runtime throws when a
  property of \<open>undefined\<close> is read. \<open>ValidationError\<close> is the rejection by the
  request-validation middleware.
\<close>

datatype error_type = DB_ERROR | INVALID_DATA | NOT_FOUND | NOT_ALLOWED | UNEXPECTED_STATE

datatype error =
    MedusaError error_type string
  | TypeError string
  | ValidationError string

record Region =
  reg_id :: string
  reg_countries :: "string list"
  reg_currency_code :: string

record Customer =
  cust_id :: string
  cust_email :: string

record LineItem =
  li_cart_id :: "string option"
  li_variant_id :: string
  li_quantity :: int
  li_title :: string
  li_unit_price :: int

record Address =
  addr_country_code :: string

text \<open>\<open>Partial<CartCreateProps>\<close>: the attributes the handler collects in \<open>toCreate\<close>.\<close>

record CartCreateProps =
  cart_region_id :: string
  cart_sales_channel_id :: "string option"
  cart_context :: "string \<rightharpoonup> jsval"
  cart_customer_id :: "string option"
  cart_email :: "string option"
  cart_shipping_address :: "Address option"

record Cart = CartCreateProps +
  cart_id :: string
  cart_items :: "LineItem list"

section \<open>The request\<close>

text \<open>class \<open>Item\<close> and class \<open>StorePostCartReq\<close>, with the types their fields declare.\<close>

record Item =
  variant_id :: string
  quantity :: int

record StorePostCartReq =
  body_region_id :: "string option"
  body_country_code :: "string option"
  body_items :: "Item list option"
  body_context :: "(string \<rightharpoonup> jsval) option"
  body_sales_channel_id :: "string option"

text \<open>\<open>req.user\<close>, as the authentication layer injects it.\<close>

record User =
  user_id :: "string option"
  user_customer_id :: "string option"

text \<open>
  The parts of \<open>req\<close> the cart handler reads: \<open>req.validatedBody\<close>,
  \<open>reqIp.getClientIp(req)\<close> (a string or \<open>null\<close>), \<open>req.get("user-agent")\<close> (a string or
  \<open>undefined\<close>) and \<open>req.user\<close>.
\<close>

record Req =
  validatedBody :: StorePostCartReq
  client_ip :: "string option"
  user_agent :: "string option"
  user :: "User option"

section \<open>The world: persistent store and calls made\<close>

record GenerateContext =
  gc_region :: Region
  gc_customer_id :: "string option"

text \<open>One event for each call of a collaborator, in the order the calls are made.\<close>

datatype event =
    RegionList
  | CustomerRetrieve string
  | CartCreate CartCreateProps
  | Generate string string int GenerateContext
  | IsFeatureEnabled string
  | AddLineItems string "LineItem list" bool
  | RetrieveWithTotals string

record Store =
  carts :: "string \<rightharpoonup> CartCreateProps"
  line_items :: "LineItem list"

record World =
  db :: Store
  calls :: "event list"

text \<open>
  An awaited call either throws or returns, and may change the world: \<open>Inl\<close> is the
  thrown error. \<open>bnd\<close> is sequencing with \<open>await\<close>: an error ends the sequence.
\<close>

type_synonym 'a action = "World \<Rightarrow> (error + 'a) \<times> World"

definition ret :: "'a \<Rightarrow> 's \<Rightarrow> (error + 'a) \<times> 's" where
  "ret x w = (Inr x, w)"

definition throw :: "error \<Rightarrow> 's \<Rightarrow> (error + 'a) \<times> 's" where
  "throw e w = (Inl e, w)"

definition bnd ::
    "('s \<Rightarrow> (error + 'a) \<times> 's) \<Rightarrow> ('a \<Rightarrow> 's \<Rightarrow> (error + 'b) \<times> 's) \<Rightarrow>
     's \<Rightarrow> (error + 'b) \<times> 's" where
  "bnd m f w = (case m w of (Inl e, w') \<Rightarrow> (Inl e, w') | (Inr x, w') \<Rightarrow> f x w')"

definition called :: "event \<Rightarrow> World \<Rightarrow> World" where
  "called ev w = w\<lparr>calls := calls w @ [ev]\<rparr>"

text \<open>A call of a collaborator that only reads: the call is recorded, the result returned.\<close>

definition call :: "event \<Rightarrow> error + 'a \<Rightarrow> 'a action" where
  "call ev r w = (r, called ev w)"

text \<open>A step of the handler's own that may throw and touches nothing.\<close>

definition lift :: "error + 'a \<Rightarrow> 's \<Rightarrow> (error + 'a) \<times> 's" where
  "lift r w = (r, w)"

section \<open>The collaborators\<close>

text \<open>
  What \<open>req.scope.resolve\<close> hands to the cart handler, and what the services read:
  the result of \<open>regionService.list\<close>, \<open>customerService.retrieve\<close>,
  \<open>lineItemService.generate\<close>, \<open>featureFlagRouter.isFeatureEnabled\<close>, whether a sales
  channel carries a line item, and the identifier the store gives to the next cart. With
  them comes the runtime's \<open>String.prototype.toLowerCase\<close>: its Unicode case mapping is
  taken as it is, not written out.
\<close>

record deps =
  regions :: "Region list"
  customerService_retrieve :: "string \<Rightarrow> error + Customer"
  lineItemService_generate :: "string \<Rightarrow> string \<Rightarrow> int \<Rightarrow> GenerateContext \<Rightarrow> error + LineItem"
  isFeatureEnabled :: "string \<Rightarrow> bool"
  sales_channel_carries :: "string option \<Rightarrow> LineItem \<Rightarrow> bool"
  new_cart_id :: string
  toLowerCase :: "string \<Rightarrow> string"

definition regionService_list :: "deps \<Rightarrow> Region list action" where
  "regionService_list d = call RegionList (Inr (regions d))"

definition customerService_retrieve_call :: "deps \<Rightarrow> string \<Rightarrow> Customer action" where
  "customerService_retrieve_call d cid = call (CustomerRetrieve cid) (customerService_retrieve d cid)"

definition lineItemServiceTx_generate ::
    "deps \<Rightarrow> string \<Rightarrow> string \<Rightarrow> int \<Rightarrow> GenerateContext \<Rightarrow> LineItem action" where
  "lineItemServiceTx_generate d v r q c =
     call (Generate v r q c) (lineItemService_generate d v r q c)"

definition featureFlagRouter_isFeatureEnabled :: "deps \<Rightarrow> string \<Rightarrow> bool action" where
  "featureFlagRouter_isFeatureEnabled d k = call (IsFeatureEnabled k) (Inr (isFeatureEnabled d k))"

text \<open>
  Modelled from the spec: \<open>CartService.create\<close> is not under \<open>src/\<close>. Section 4.3, step 5a:
  "Persist the cart with the attributes from steps 2-4". The new row gets the store's
  next identifier and the cart has no line items yet.
\<close>

definition cartServiceTx_create :: "deps \<Rightarrow> CartCreateProps \<Rightarrow> Cart action" where
  "cartServiceTx_create d toCreate w =
     (Inr (CartCreateProps.extend toCreate (Cart.fields (new_cart_id d) [])),
      called (CartCreate toCreate)
        (w\<lparr>db := (db w)\<lparr>carts := (carts (db w))(new_cart_id d \<mapsto> toCreate)\<rparr>\<rparr>))"

text \<open>
  Modelled from the spec: \<open>CartService.addLineItems\<close> is not under \<open>src/\<close>. Section 4.3,
  step 5c: "Attach the full collected set of line items to the cart in one batch call,
  optionally validating that each implicated sales channel actually carries the item
  (only when a feature flag is enabled)". Every line item belongs to exactly one cart
  (section 3), so attaching sets its cart.
\<close>

definition cartServiceTx_addLineItems ::
    "deps \<Rightarrow> string \<Rightarrow> LineItem list \<Rightarrow> bool \<Rightarrow> unit action" where
  "cartServiceTx_addLineItems d cid lis validateSalesChannels w =
     (let w1 = called (AddLineItems cid lis validateSalesChannels) w in
      case carts (db w) cid of
        None \<Rightarrow> (Inl (MedusaError NOT_FOUND ''Cart was not found''), w1)
      | Some row \<Rightarrow>
          if validateSalesChannels \<and>
             \<not> list_all (sales_channel_carries d (cart_sales_channel_id row)) lis
          then (Inl (MedusaError INVALID_DATA
                  ''The line item is not available in the sales channel''), w1)
          else (Inr (),
                w1\<lparr>db := (db w)\<lparr>line_items :=
                  line_items (db w) @ map (\<lambda>li. li\<lparr>li_cart_id := Some cid\<rparr>) lis\<rparr>\<rparr>))"

text \<open>
  Modelled from the spec: \<open>CartService.retrieveWithTotals\<close> is not under \<open>src/\<close>.
  Section 4.4: a pure read, executed after commit, that re-fetches the cart with its
  relations. The totals themselves are not modelled.
\<close>

definition cartService_retrieveWithTotals :: "string \<Rightarrow> Cart action" where
  "cartService_retrieveWithTotals cid w =
     (case carts (db w) cid of
        None \<Rightarrow> Inl (MedusaError NOT_FOUND ''Cart was not found'')
      | Some row \<Rightarrow>
          Inr (CartCreateProps.extend row
                 (Cart.fields cid (filter (\<lambda>li. li_cart_id li = Some cid) (line_items (db w))))),
      called (RetrieveWithTotals cid) w)"

text \<open>
  Modelled from the spec: \<open>EntityManager.transaction\<close> is the persistence layer's, not
  under \<open>src/\<close>. Section 4.3, step 6: "Commit. If generation or attachment fails, the
  entire transaction is rolled back". The store goes back to what it was when the
  callback throws; the calls that were made stay made.
\<close>

definition transaction :: "'a action \<Rightarrow> 'a action" where
  "transaction body w =
     (case body w of
        (Inl e, w') \<Rightarrow> (Inl e, w'\<lparr>db := db w\<rparr>)
      | (Inr x, w') \<Rightarrow> (Inr x, w'))"

section \<open>POST /carts\<close>

text \<open>\<open>isDefined(validated.region_id)\<close> and \<open>regions.find\<close>, then the fallback to \<open>regions[0]\<close>.\<close>

definition resolve_region :: "StorePostCartReq \<Rightarrow> Region list \<Rightarrow> error + Region option" where
  "resolve_region validated regs =
     (case body_region_id validated of
        Some rid \<Rightarrow> Inr (find (\<lambda>r. reg_id r = rid) regs)
      | None \<Rightarrow>
          (case regs of
             [] \<Rightarrow> Inl (MedusaError INVALID_DATA ''A region is required to create a cart'')
           | r # _ \<Rightarrow> Inr (Some r)))"

text \<open>Reading a property of a value that may be \<open>undefined\<close>.\<close>

definition read_property :: "'a option \<Rightarrow> string \<Rightarrow> error + 'a" where
  "read_property x p =
     (case x of
        None \<Rightarrow> Inl (TypeError (''Cannot read properties of undefined (reading '' @ p @ '')''))
      | Some v \<Rightarrow> Inr v)"

definition reqContext :: "Req \<Rightarrow> (string \<rightharpoonup> jsval)" where
  "reqContext req =
     [''ip'' \<mapsto> (case client_ip req of None \<Rightarrow> JNull | Some a \<Rightarrow> JStr a),
      ''user_agent'' \<mapsto> (case user_agent req of None \<Rightarrow> JUndefined | Some a \<Rightarrow> JStr a)]"

text \<open>Object spread of a value that may be \<open>undefined\<close>.\<close>

definition spread :: "(string \<rightharpoonup> jsval) option \<Rightarrow> (string \<rightharpoonup> jsval)" where
  "spread x = (case x of None \<Rightarrow> Map.empty | Some m \<Rightarrow> m)"

text \<open>A string is truthy when it is defined and not empty.\<close>

definition truthy :: "string option \<Rightarrow> bool" where
  "truthy x = (case x of None \<Rightarrow> False | Some s \<Rightarrow> s \<noteq> [])"

text \<open>\<open>req.user?.customer_id\<close>, which is also what \<open>req.user && req.user.customer_id\<close> tests.\<close>

definition user_customer :: "Req \<Rightarrow> string option" where
  "user_customer req = (case user req of None \<Rightarrow> None | Some u \<Rightarrow> user_customer_id u)"

text \<open>The call \<open>lineItemServiceTx.generate(item.variant_id, region.id, item.quantity, {...})\<close>.\<close>

definition generate_context :: "Region \<Rightarrow> Req \<Rightarrow> GenerateContext" where
  "generate_context region req = \<lparr>gc_region = region, gc_customer_id = user_customer req\<rparr>"

text \<open>The \<open>for (const item of validated.items)\<close> loop, pushing onto \<open>generatedLineItems\<close>.\<close>

fun generate_loop ::
    "deps \<Rightarrow> Region \<Rightarrow> Req \<Rightarrow> Item list \<Rightarrow> LineItem list \<Rightarrow> LineItem list action" where
  "generate_loop d region req [] generatedLineItems = ret generatedLineItems"
| "generate_loop d region req (item # rest) generatedLineItems =
     bnd (lineItemServiceTx_generate d (variant_id item) (reg_id region) (quantity item)
            (generate_context region req))
       (\<lambda>generatedLineItem.
          generate_loop d region req rest (generatedLineItems @ [generatedLineItem]))"

text \<open>The callback given to \<open>entityManager.transaction\<close>.\<close>

definition tx_body :: "deps \<Rightarrow> Req \<Rightarrow> Region \<Rightarrow> CartCreateProps \<Rightarrow> Cart action" where
  "tx_body d req region toCreate =
     bnd (cartServiceTx_create d toCreate) (\<lambda>cart.
       case body_items (validatedBody req) of
         None \<Rightarrow> ret cart
       | Some [] \<Rightarrow> ret cart
       | Some (item # rest) \<Rightarrow>
           bnd (generate_loop d region req (item # rest) []) (\<lambda>generatedLineItems.
           bnd (featureFlagRouter_isFeatureEnabled d ''sales_channels'') (\<lambda>flag.
           bnd (cartServiceTx_addLineItems d (cart_id cart) generatedLineItems flag) (\<lambda>_.
           ret cart))))"

text \<open>The attributes of \<open>toCreate\<close> before the customer and the country are looked at.\<close>

definition initial_toCreate :: "Req \<Rightarrow> Region \<Rightarrow> CartCreateProps" where
  "initial_toCreate req region =
     \<lparr>cart_region_id = reg_id region,
      cart_sales_channel_id = body_sales_channel_id (validatedBody req),
      cart_context = reqContext req ++ spread (body_context (validatedBody req)),
      cart_customer_id = None,
      cart_email = None,
      cart_shipping_address = None\<rparr>"

definition with_customer :: "deps \<Rightarrow> Req \<Rightarrow> CartCreateProps \<Rightarrow> CartCreateProps action" where
  "with_customer d req toCreate =
     (if truthy (user_customer req)
      then bnd (customerService_retrieve_call d (the (user_customer req))) (\<lambda>customer.
             ret (toCreate\<lparr>cart_customer_id := Some (cust_id customer),
                           cart_email := Some (cust_email customer)\<rparr>))
      else ret toCreate)"

definition with_country :: "deps \<Rightarrow> Req \<Rightarrow> CartCreateProps \<Rightarrow> CartCreateProps" where
  "with_country d req toCreate =
     (if truthy (body_country_code (validatedBody req))
      then toCreate\<lparr>cart_shipping_address :=
             Some \<lparr>addr_country_code =
                    toLowerCase d (the (body_country_code (validatedBody req)))\<rparr>\<rparr>
      else toCreate)"

text \<open>Everything the handler does before it opens the transaction.\<close>

definition build_toCreate :: "deps \<Rightarrow> Req \<Rightarrow> (Region \<times> CartCreateProps) action" where
  "build_toCreate d req =
     bnd (regionService_list d) (\<lambda>regs.
     bnd (lift (resolve_region (validatedBody req) regs)) (\<lambda>found.
     bnd (lift (read_property found ''id'')) (\<lambda>region.
     bnd (with_customer d req (initial_toCreate req region)) (\<lambda>toCreate.
     ret (region, with_country d req toCreate)))))"

text \<open>The handler; its result is the cart of the \<open>200\<close> response.\<close>

definition create_cart :: "deps \<Rightarrow> Req \<Rightarrow> Cart action" where
  "create_cart d req =
     bnd (build_toCreate d req) (\<lambda>(region, toCreate).
     bnd (transaction (tx_body d req region toCreate)) (\<lambda>cart.
     cartService_retrieveWithTotals (cart_id cart)))"

section \<open>Validation of the items of a request\<close>

text \<open>An element of \<open>items\<close> as received: a field that is absent reads as \<open>undefined\<close>.\<close>

record RawItem =
  raw_variant_id :: jsval
  raw_quantity :: jsval

text \<open>The decorators of class \<open>Item\<close>: \<open>@IsNotEmpty\<close>, \<open>@IsString\<close>, \<open>@IsInt\<close>.\<close>

definition isNotEmpty :: "jsval \<Rightarrow> bool" where
  "isNotEmpty v = (v \<noteq> JStr [] \<and> v \<noteq> JNull \<and> v \<noteq> JUndefined)"

definition isString :: "jsval \<Rightarrow> bool" where
  "isString v = (case v of JStr _ \<Rightarrow> True | _ \<Rightarrow> False)"

definition isInt :: "jsval \<Rightarrow> bool" where
  "isInt v = (case v of JNum q \<Rightarrow> q = of_int \<lfloor>q\<rfloor> | _ \<Rightarrow> False)"

definition validate_Item :: "RawItem \<Rightarrow> bool" where
  "validate_Item i =
     (isNotEmpty (raw_variant_id i) \<and> isString (raw_variant_id i) \<and>
      isNotEmpty (raw_quantity i) \<and> isInt (raw_quantity i))"

text \<open>\<open>@Type(() => Item)\<close>: the typed item of an element that passed its decorators.\<close>

definition transform_Item :: "RawItem \<Rightarrow> Item option" where
  "transform_Item i =
     (if validate_Item i
      then (case (raw_variant_id i, raw_quantity i) of
              (JStr v, JNum q) \<Rightarrow> Some \<lparr>variant_id = v, quantity = \<lfloor>q\<rfloor>\<rparr>
            | _ \<Rightarrow> None)
      else None)"

text \<open>\<open>@IsOptional() @IsArray() @ValidateNested({ each: true })\<close> on \<open>items\<close>.\<close>

definition transform_items :: "RawItem list option \<Rightarrow> Item list option option" where
  "transform_items raw =
     (case raw of
        None \<Rightarrow> Some None
      | Some ris \<Rightarrow>
          if list_all validate_Item ris then Some (Some (List.map_filter transform_Item ris))
          else None)"

text \<open>
  Modelled from the spec: the middleware that validates the body and fills
  \<open>req.validatedBody\<close> is not under \<open>src/\<close>. Section 9: "a schema-validation pass performed
  once at the boundary, producing a strongly-typed, already-validated request value before
  the workflow executes"; section 7: a malformed item is a \<open>ValidationError\<close>, "rejected
  before any persistence attempt". The items are given as received, \<open>req\<close> carries the
  other fields of the body.
\<close>

definition post_carts :: "deps \<Rightarrow> RawItem list option \<Rightarrow> Req \<Rightarrow> Cart action" where
  "post_carts d raw req =
     (case transform_items raw of
        None \<Rightarrow> throw (ValidationError ''items'')
      | Some its \<Rightarrow> create_cart d (req\<lparr>validatedBody := (validatedBody req)\<lparr>body_items := its\<rparr>\<rparr>))"

section \<open>Notions used in the statements\<close>

text \<open>A request starts on a store, with no call made yet.\<close>

definition start :: "Store \<Rightarrow> World" where
  "start s = \<lparr>db = s, calls = []\<rparr>"

text \<open>What \<open>generate\<close> returns for an item of the request, and the call that asks for it.\<close>

definition gen_of :: "deps \<Rightarrow> Region \<Rightarrow> Req \<Rightarrow> Item \<Rightarrow> error + LineItem" where
  "gen_of d region req item =
     lineItemService_generate d (variant_id item) (reg_id region) (quantity item)
       (generate_context region req)"

definition gen_call :: "Region \<Rightarrow> Req \<Rightarrow> Item \<Rightarrow> event" where
  "gen_call region req item =
     Generate (variant_id item) (reg_id region) (quantity item) (generate_context region req)"

definition generated :: "deps \<Rightarrow> Region \<Rightarrow> Req \<Rightarrow> Item list \<Rightarrow> LineItem list" where
  "generated d region req its = map (\<lambda>it. projr (gen_of d region req it)) its"

text \<open>The line items as they are stored once attached to the new cart.\<close>

definition attached :: "deps \<Rightarrow> LineItem list \<Rightarrow> LineItem list" where
  "attached d lis = map (\<lambda>li. li\<lparr>li_cart_id := Some (new_cart_id d)\<rparr>) lis"

text \<open>The customer of the request, if there is one, can be fetched.\<close>

definition customer_ok :: "deps \<Rightarrow> Req \<Rightarrow> bool" where
  "customer_ok d req =
     (truthy (user_customer req) \<longrightarrow>
        (\<exists>c. customerService_retrieve d (the (user_customer req)) = Inr c))"

definition customer_calls :: "Req \<Rightarrow> event list" where
  "customer_calls req =
     (if truthy (user_customer req) then [CustomerRetrieve (the (user_customer req))] else [])"

text \<open>The attributes the handler ends up with when region and customer are found.\<close>

definition final_toCreate :: "deps \<Rightarrow> Req \<Rightarrow> Region \<Rightarrow> CartCreateProps" where
  "final_toCreate d req region =
     with_country d req
       (if truthy (user_customer req)
        then (initial_toCreate req region)
               \<lparr>cart_customer_id :=
                  Some (cust_id (projr (customerService_retrieve d (the (user_customer req))))),
                cart_email :=
                  Some (cust_email (projr (customerService_retrieve d (the (user_customer req)))))\<rparr>
        else initial_toCreate req region)"

definition new_cart :: "deps \<Rightarrow> CartCreateProps \<Rightarrow> LineItem list \<Rightarrow> Cart" where
  "new_cart d tc lis = CartCreateProps.extend tc (Cart.fields (new_cart_id d) lis)"

definition with_cart :: "deps \<Rightarrow> CartCreateProps \<Rightarrow> Store \<Rightarrow> Store" where
  "with_cart d tc s = s\<lparr>carts := (carts s)(new_cart_id d \<mapsto> tc)\<rparr>"

definition items_of :: "Store \<Rightarrow> string \<Rightarrow> LineItem list" where
  "items_of s cid = filter (\<lambda>li. li_cart_id li = Some cid) (line_items s)"

text \<open>The identifier of the next cart is not in use: no cart has it, no line item points to it.\<close>

definition fresh_id :: "deps \<Rightarrow> Store \<Rightarrow> bool" where
  "fresh_id d s = (carts s (new_cart_id d) = None \<and> items_of s (new_cart_id d) = [])"

definition no_items :: "Req \<Rightarrow> bool" where
  "no_items req =
     (body_items (validatedBody req) = None \<or> body_items (validatedBody req) = Some [])"

text \<open>The batch attach refuses the items: the flag is on and the channel lacks one of them.\<close>

definition attach_rejected :: "deps \<Rightarrow> string option \<Rightarrow> LineItem list \<Rightarrow> bool" where
  "attach_rejected d channel lis =
     (isFeatureEnabled d ''sales_channels'' \<and> \<not> list_all (sales_channel_carries d channel) lis)"

text \<open>The calls that concern line items: generation, the flag, the batch attach.\<close>

definition is_generate :: "event \<Rightarrow> bool" where
  "is_generate ev = (case ev of Generate _ _ _ _ \<Rightarrow> True | _ \<Rightarrow> False)"

definition is_attach :: "event \<Rightarrow> bool" where
  "is_attach ev = (case ev of AddLineItems _ _ _ \<Rightarrow> True | _ \<Rightarrow> False)"

definition is_flag :: "event \<Rightarrow> bool" where
  "is_flag ev = (case ev of IsFeatureEnabled _ \<Rightarrow> True | _ \<Rightarrow> False)"

definition is_create :: "event \<Rightarrow> bool" where
  "is_create ev = (case ev of CartCreate _ \<Rightarrow> True | _ \<Rightarrow> False)"

definition is_retrieve :: "event \<Rightarrow> bool" where
  "is_retrieve ev = (case ev of RetrieveWithTotals _ \<Rightarrow> True | _ \<Rightarrow> False)"

text \<open>How often a list of calls consults the \<open>sales_channels\<close> flag.\<close>

definition flag_consultations :: "event list \<Rightarrow> nat" where
  "flag_consultations tr = count_list tr (IsFeatureEnabled ''sales_channels'')"

text \<open>The generator keeps the variant and the quantity it was asked for.\<close>

definition generate_faithful :: "deps \<Rightarrow> bool" where
  "generate_faithful d =
     (\<forall>v r q c li. lineItemService_generate d v r q c = Inr li \<longrightarrow>
        li_variant_id li = v \<and> li_quantity li = q)"

section \<open>A shop to run the handlers on\<close>

definition shop_region :: Region where
  "shop_region = \<lparr>reg_id = ''r1'', reg_countries = [''us''], reg_currency_code = ''usd''\<rparr>"

definition shop_region2 :: Region where
  "shop_region2 = \<lparr>reg_id = ''r2'', reg_countries = [''dk''], reg_currency_code = ''dkk''\<rparr>"

text \<open>
  Modelled from the spec: \<open>LineItemService.generate\<close> is not under \<open>src/\<close>. Section 4.2:
  it "fails with a not found error if the variant does not exist" and "fails with invalid
  quantity if quantity < 1". The shop sells every variant but \<open>missing\<close>, at one price.
\<close>

definition shop_generate :: "string \<Rightarrow> string \<Rightarrow> int \<Rightarrow> GenerateContext \<Rightarrow> error + LineItem" where
  "shop_generate v r q c =
     (if v = ''missing'' then Inl (MedusaError NOT_FOUND ''Variant was not found'')
      else if q < 1 then Inl (MedusaError INVALID_DATA ''invalid quantity'')
      else Inr \<lparr>li_cart_id = None, li_variant_id = v, li_quantity = q, li_title = v,
                li_unit_price = 100\<rparr>)"

definition shop_customers :: "string \<Rightarrow> error + Customer" where
  "shop_customers cid =
     (if cid = ''c1'' then Inr \<lparr>cust_id = ''c1'', cust_email = ''a@b.com''\<rparr>
      else Inl (MedusaError NOT_FOUND ''Customer was not found''))"

text \<open>
  The strings of the model are lists of code units below 256. On those
  \<open>String.prototype.toLowerCase\<close> moves \<open>A\<close> to \<open>Z\<close> and the capital letters from U+00C0 to
  U+00DE, the multiplication sign U+00D7 apart, up by 32 and leaves every other code
  unit alone.
\<close>

definition latin1_toLowerCase :: "string \<Rightarrow> string" where
  "latin1_toLowerCase s =
     map (\<lambda>c. let n = (of_char c :: nat) in
               if (65 \<le> n \<and> n \<le> 90) \<or> (192 \<le> n \<and> n \<le> 222 \<and> n \<noteq> 215)
               then char_of (n + 32) else c) s"

definition shop :: "bool \<Rightarrow> deps" where
  "shop flag =
     \<lparr>regions = [shop_region, shop_region2],
      customerService_retrieve = shop_customers,
      lineItemService_generate = shop_generate,
      isFeatureEnabled = (\<lambda>k. k = ''sales_channels'' \<and> flag),
      sales_channel_carries = (\<lambda>channel li. li_variant_id li \<noteq> ''v9''),
      new_cart_id = ''cart_1'',
      toLowerCase = latin1_toLowerCase\<rparr>"

definition empty_store :: Store where
  "empty_store = \<lparr>carts = Map.empty, line_items = []\<rparr>"

definition plain_body :: "StorePostCartReq" where
  "plain_body =
     \<lparr>body_region_id = None, body_country_code = None, body_items = None, body_context = None,
      body_sales_channel_id = None\<rparr>"

definition guest :: "StorePostCartReq \<Rightarrow> Req" where
  "guest body = \<lparr>validatedBody = body, client_ip = Some ''::1'', user_agent = Some ''Chrome'',
                 user = None\<rparr>"

definition customer_c1 :: "StorePostCartReq \<Rightarrow> Req" where
  "customer_c1 body =
     (guest body)\<lparr>user := Some \<lparr>user_id = None, user_customer_id = Some ''c1''\<rparr>\<rparr>"

definition item :: "string \<Rightarrow> int \<Rightarrow> Item" where
  "item v q = \<lparr>variant_id = v, quantity = q\<rparr>"

definition three_items :: "Item list" where
  "three_items = [item ''v1'' 2, item ''missing'' 1, item ''v3'' 1]"

definition two_items :: "Item list" where
  "two_items = [item ''v1'' 2, item ''v3'' 1]"

section \<open>The steps of the cart handler\<close>

lemma bnd_simps:
  "bnd (ret x) f w = f x w"
  "bnd (throw e) f w = (Inl e, w)"
  "bnd (lift (Inr x)) f w = f x w"
  "bnd (lift (Inl e)) f w = (Inl e, w)"
  "bnd (call ev (Inr x)) f w = f x (called ev w)"
  "bnd (call ev (Inl e)) f w = (Inl e, called ev w)"
  by (simp_all add: bnd_def ret_def throw_def lift_def call_def)

lemma called_simps [simp]:
  "db (called ev w) = db w"
  "calls (called ev w) = calls w @ [ev]"
  by (simp_all add: called_def)

lemma generate_loop_all:
  "\<forall>it\<in>set its. \<exists>li. gen_of d region req it = Inr li \<Longrightarrow>
   generate_loop d region req its acc w =
     (Inr (acc @ map (\<lambda>it. projr (gen_of d region req it)) its),
      w\<lparr>calls := calls w @ map (gen_call region req) its\<rparr>)"
proof (induction its arbitrary: acc w)
  case Nil
  then show ?case by (simp add: ret_def)
next
  case (Cons it its)
  from Cons.prems obtain li where li: "gen_of d region req it = Inr li" by auto
  have rest: "\<forall>it\<in>set its. \<exists>li. gen_of d region req it = Inr li" using Cons.prems by simp
  show ?case
    using li Cons.IH [OF rest, of "acc @ [li]" "called (gen_call region req it) w"]
    by (simp add: lineItemServiceTx_generate_def gen_of_def gen_call_def bnd_simps called_def)
qed

lemma generate_loop_some:
  "\<exists>it\<in>set its. isl (gen_of d region req it) \<Longrightarrow>
   \<exists>e k. k < length its \<and> generate_loop d region req its acc w =
     (Inl e, w\<lparr>calls := calls w @ map (gen_call region req) (take (Suc k) its)\<rparr>)"
proof (induction its arbitrary: acc w)
  case Nil
  then show ?case by simp
next
  case (Cons it its)
  show ?case
  proof (cases "gen_of d region req it")
    case (Inl e)
    then have "generate_loop d region req (it # its) acc w =
      (Inl e, w\<lparr>calls := calls w @ map (gen_call region req) (take (Suc 0) (it # its))\<rparr>)"
      by (simp add: lineItemServiceTx_generate_def gen_of_def gen_call_def bnd_simps called_def)
    then show ?thesis by blast
  next
    case (Inr li)
    with Cons.prems have "\<exists>it\<in>set its. isl (gen_of d region req it)" by auto
    from Cons.IH [OF this, of "acc @ [li]" "called (gen_call region req it) w"]
    obtain e k where k: "k < length its"
      and eq: "generate_loop d region req its (acc @ [li]) (called (gen_call region req it) w) =
        (Inl e, (called (gen_call region req it) w)\<lparr>calls := calls (called (gen_call region req it) w) @ map (gen_call region req) (take (Suc k) its)\<rparr>)"
      by blast
    have "generate_loop d region req (it # its) acc w =
      (Inl e, w\<lparr>calls := calls w @ map (gen_call region req) (take (Suc (Suc k)) (it # its))\<rparr>)"
      using Inr eq
      by (simp add: lineItemServiceTx_generate_def gen_of_def gen_call_def bnd_simps called_def)
    moreover have "Suc k < length (it # its)" using k by simp
    ultimately show ?thesis by blast
  qed
qed

lemma build_toCreate_ok:
  assumes "resolve_region (validatedBody req) (regions d) = Inr (Some region)"
    and "customer_ok d req"
  shows "build_toCreate d req w =
    (Inr (region, final_toCreate d req region),
     w\<lparr>calls := calls w @ RegionList # customer_calls req\<rparr>)"
  using assms
  by (auto simp: build_toCreate_def regionService_list_def bnd_def lift_def call_def read_property_def
      with_customer_def customerService_retrieve_call_def customer_ok_def customer_calls_def
      final_toCreate_def called_def ret_def)

lemma build_toCreate_db: "db (snd (build_toCreate d req w)) = db w"
  by (simp add: build_toCreate_def regionService_list_def bnd_def lift_def call_def ret_def
      read_property_def with_customer_def customerService_retrieve_call_def
      split: sum.splits option.splits prod.splits)

lemma build_toCreate_fails:
  "fst (build_toCreate d req w) = Inl e \<Longrightarrow>
   \<exists>pre. snd (build_toCreate d req w) = w\<lparr>calls := calls w @ RegionList # pre\<rparr> \<and>
         (pre = [] \<or> pre = customer_calls req)"
  by (auto simp add: build_toCreate_def regionService_list_def bnd_def lift_def call_def ret_def
      read_property_def with_customer_def customerService_retrieve_call_def called_def customer_calls_def
      split: sum.splits option.splits prod.splits if_splits)

lemma build_toCreate_succeeds:
  "fst (build_toCreate d req w) = Inr (region, tc) \<Longrightarrow>
   resolve_region (validatedBody req) (regions d) = Inr (Some region) \<and> customer_ok d req"
  by (auto simp add: build_toCreate_def regionService_list_def bnd_def lift_def call_def ret_def
      read_property_def with_customer_def customerService_retrieve_call_def called_def customer_ok_def
      split: sum.splits option.splits prod.splits if_splits)

lemma tx_no_items:
  "no_items req \<Longrightarrow>
   transaction (tx_body d req region tc) w =
     (Inr (new_cart d tc []), \<lparr>db = with_cart d tc (db w), calls = calls w @ [CartCreate tc]\<rparr>)"
  by (auto simp: no_items_def transaction_def tx_body_def bnd_def cartServiceTx_create_def
      ret_def called_def new_cart_def with_cart_def)

lemma tx_body_items:
  assumes "body_items (validatedBody req) = Some its" and "its \<noteq> []"
  shows "tx_body d req region tc =
     bnd (cartServiceTx_create d tc) (\<lambda>cart.
       bnd (generate_loop d region req its []) (\<lambda>generatedLineItems.
       bnd (featureFlagRouter_isFeatureEnabled d ''sales_channels'') (\<lambda>flag.
       bnd (cartServiceTx_addLineItems d (cart_id cart) generatedLineItems flag) (\<lambda>_.
       ret cart))))"
  using assms by (cases its) (simp_all add: tx_body_def)

lemma tx_generate_fails:
  assumes "body_items (validatedBody req) = Some its"
    and "\<exists>it\<in>set its. isl (gen_of d region req it)"
  shows "\<exists>e k. k < length its \<and> transaction (tx_body d req region tc) w =
     (Inl e, \<lparr>db = db w,
              calls = calls w @ CartCreate tc # map (gen_call region req) (take (Suc k) its)\<rparr>)"
proof -
  from assms(2) have ne: "its \<noteq> []" by auto
  let ?w1 = "called (CartCreate tc) (w\<lparr>db := with_cart d tc (db w)\<rparr>)"
  from generate_loop_some [OF assms(2), of "[]" ?w1]
  obtain e k where k: "k < length its"
    and loop: "generate_loop d region req its [] ?w1 =
      (Inl e, ?w1\<lparr>calls := calls ?w1 @ map (gen_call region req) (take (Suc k) its)\<rparr>)"
    by blast
  have "transaction (tx_body d req region tc) w =
     (Inl e, \<lparr>db = db w,
              calls = calls w @ CartCreate tc # map (gen_call region req) (take (Suc k) its)\<rparr>)"
    using loop
    by (simp add: tx_body_items [OF assms(1) ne] transaction_def bnd_def cartServiceTx_create_def
        with_cart_def called_def)
  with k show ?thesis by blast
qed

lemma tx_attach:
  assumes "body_items (validatedBody req) = Some its" and "its \<noteq> []"
    and "\<forall>it\<in>set its. \<exists>li. gen_of d region req it = Inr li"
  shows "transaction (tx_body d req region tc) w =
     (if attach_rejected d (cart_sales_channel_id tc) (generated d region req its)
      then (Inl (MedusaError INVALID_DATA ''The line item is not available in the sales channel''),
            \<lparr>db = db w,
             calls = calls w @ CartCreate tc # map (gen_call region req) its @
               [IsFeatureEnabled ''sales_channels'',
                AddLineItems (new_cart_id d) (generated d region req its) True]\<rparr>)
      else (Inr (new_cart d tc []),
            \<lparr>db = (with_cart d tc (db w))\<lparr>line_items :=
                    line_items (db w) @ attached d (generated d region req its)\<rparr>,
             calls = calls w @ CartCreate tc # map (gen_call region req) its @
               [IsFeatureEnabled ''sales_channels'',
                AddLineItems (new_cart_id d) (generated d region req its)
                  (isFeatureEnabled d ''sales_channels'')]\<rparr>))"
proof -
  let ?w1 = "called (CartCreate tc) (w\<lparr>db := with_cart d tc (db w)\<rparr>)"
  have loop: "generate_loop d region req its [] ?w1 =
      (Inr (generated d region req its), ?w1\<lparr>calls := calls ?w1 @ map (gen_call region req) its\<rparr>)"
    using generate_loop_all [OF assms(3), of "[]" ?w1] by (simp add: generated_def)
  show ?thesis
    using loop
    by (simp add: tx_body_items [OF assms(1,2)] transaction_def bnd_def cartServiceTx_create_def
        with_cart_def called_def featureFlagRouter_isFeatureEnabled_def call_def
        cartServiceTx_addLineItems_def attach_rejected_def ret_def new_cart_def attached_def
        Let_def Cart.defs CartCreateProps.defs)
qed

lemma final_toCreate_channel [simp]:
  "cart_sales_channel_id (final_toCreate d req region) = body_sales_channel_id (validatedBody req)"
  by (simp add: final_toCreate_def with_country_def initial_toCreate_def)

lemma retrieve_new_cart:
  "carts (db w) (new_cart_id d) = Some tc \<Longrightarrow>
   cartService_retrieveWithTotals (cart_id (new_cart d tc lis)) w =
     (Inr (new_cart d tc (items_of (db w) (new_cart_id d))),
      w\<lparr>calls := calls w @ [RetrieveWithTotals (new_cart_id d)]\<rparr>)"
  by (simp add: cartService_retrieveWithTotals_def new_cart_def items_of_def called_def
      Cart.defs CartCreateProps.defs)

lemma create_cart_prepare_fails:
  "fst (build_toCreate d req w) = Inl e \<Longrightarrow>
   create_cart d req w = (Inl e, snd (build_toCreate d req w))"
  by (cases "build_toCreate d req w") (simp add: create_cart_def bnd_def)

lemma create_cart_prepared:
  assumes "resolve_region (validatedBody req) (regions d) = Inr (Some region)"
    and "customer_ok d req"
  shows "create_cart d req w =
     bnd (transaction (tx_body d req region (final_toCreate d req region)))
       (\<lambda>cart. cartService_retrieveWithTotals (cart_id cart))
       (w\<lparr>calls := calls w @ RegionList # customer_calls req\<rparr>)"
  by (simp add: create_cart_def bnd_def build_toCreate_ok [OF assms])

lemma create_cart_no_items:
  assumes "resolve_region (validatedBody req) (regions d) = Inr (Some region)"
    and "customer_ok d req"
    and "no_items req"
  shows "create_cart d req w =
     (Inr (new_cart d (final_toCreate d req region) (items_of (db w) (new_cart_id d))),
      \<lparr>db = with_cart d (final_toCreate d req region) (db w),
       calls = calls w @ RegionList # customer_calls req @
         [CartCreate (final_toCreate d req region), RetrieveWithTotals (new_cart_id d)]\<rparr>)"
  by (simp add: create_cart_prepared [OF assms(1,2)] bnd_def tx_no_items [OF assms(3)]
      retrieve_new_cart with_cart_def items_of_def)

lemma create_cart_generate_fails:
  assumes "resolve_region (validatedBody req) (regions d) = Inr (Some region)"
    and "customer_ok d req"
    and "body_items (validatedBody req) = Some its"
    and "\<exists>it\<in>set its. isl (gen_of d region req it)"
  shows "\<exists>e k. k < length its \<and> create_cart d req w =
     (Inl e,
      \<lparr>db = db w,
       calls = calls w @ RegionList # customer_calls req @
         CartCreate (final_toCreate d req region) #
         map (gen_call region req) (take (Suc k) its)\<rparr>)"
proof -
  from tx_generate_fails [OF assms(3,4),
      of "final_toCreate d req region" "w\<lparr>calls := calls w @ RegionList # customer_calls req\<rparr>"]
  obtain e k where "k < length its"
    and "transaction (tx_body d req region (final_toCreate d req region))
           (w\<lparr>calls := calls w @ RegionList # customer_calls req\<rparr>) =
         (Inl e, \<lparr>db = db w, calls = calls w @ RegionList # customer_calls req @
            CartCreate (final_toCreate d req region) #
            map (gen_call region req) (take (Suc k) its)\<rparr>)"
    by auto
  then show ?thesis
    by (auto simp: create_cart_prepared [OF assms(1,2)] bnd_def)
qed

lemma create_cart_attach:
  assumes "resolve_region (validatedBody req) (regions d) = Inr (Some region)"
    and "customer_ok d req"
    and "body_items (validatedBody req) = Some its" and "its \<noteq> []"
    and "\<forall>it\<in>set its. \<exists>li. gen_of d region req it = Inr li"
  shows "create_cart d req w =
     (if attach_rejected d (body_sales_channel_id (validatedBody req)) (generated d region req its)
      then (Inl (MedusaError INVALID_DATA ''The line item is not available in the sales channel''),
            \<lparr>db = db w,
             calls = calls w @ RegionList # customer_calls req @
               CartCreate (final_toCreate d req region) # map (gen_call region req) its @
               [IsFeatureEnabled ''sales_channels'',
                AddLineItems (new_cart_id d) (generated d region req its) True]\<rparr>)
      else (Inr (new_cart d (final_toCreate d req region)
                   (items_of (db w) (new_cart_id d) @ attached d (generated d region req its))),
            \<lparr>db = (with_cart d (final_toCreate d req region) (db w))\<lparr>line_items :=
                    line_items (db w) @ attached d (generated d region req its)\<rparr>,
             calls = calls w @ RegionList # customer_calls req @
               CartCreate (final_toCreate d req region) # map (gen_call region req) its @
               [IsFeatureEnabled ''sales_channels'',
                AddLineItems (new_cart_id d) (generated d region req its)
                  (isFeatureEnabled d ''sales_channels''),
                RetrieveWithTotals (new_cart_id d)]\<rparr>))"
  by (simp add: create_cart_prepared [OF assms(1,2)] bnd_def tx_attach [OF assms(3,4,5)]
      retrieve_new_cart with_cart_def items_of_def attached_def)

lemma create_cart_succeeds:
  assumes "create_cart d req w = (Inr cart, w')"
  shows "\<exists>region. resolve_region (validatedBody req) (regions d) = Inr (Some region) \<and>
           customer_ok d req"
proof (cases "fst (build_toCreate d req w)")
  case (Inl e)
  from create_cart_prepare_fails [OF this] assms show ?thesis by simp
next
  case (Inr p)
  then show ?thesis using build_toCreate_succeeds [of d req w "fst p" "snd p"] by auto
qed

lemmas shop_defs = shop_def shop_region_def shop_region2_def shop_generate_def shop_customers_def
  empty_store_def plain_body_def guest_def customer_c1_def item_def

lemma resolve_default:
  "body_region_id (validatedBody req) = None \<Longrightarrow> regions d = r # rs \<Longrightarrow>
   resolve_region (validatedBody req) (regions d) = Inr (Some r)"
  by (simp add: resolve_region_def)

lemma cart_region_new_cart [simp]:
  "cart_region_id (new_cart d (final_toCreate d req region) lis) = reg_id region"
  by (simp add: new_cart_def final_toCreate_def with_country_def initial_toCreate_def
      Cart.defs CartCreateProps.defs)

lemma create_cart_success_cases:
  assumes "create_cart d req w = (Inr cart, w')"
    and "resolve_region (validatedBody req) (regions d) = Inr (Some region)"
  shows "customer_ok d req \<and>
    ((no_items req \<and>
      cart = new_cart d (final_toCreate d req region) (items_of (db w) (new_cart_id d)) \<and>
      w' = \<lparr>db = with_cart d (final_toCreate d req region) (db w),
            calls = calls w @ RegionList # customer_calls req @
              [CartCreate (final_toCreate d req region), RetrieveWithTotals (new_cart_id d)]\<rparr>) \<or>
     (\<exists>its. body_items (validatedBody req) = Some its \<and> its \<noteq> [] \<and>
        (\<forall>it\<in>set its. \<exists>li. gen_of d region req it = Inr li) \<and>
        \<not> attach_rejected d (body_sales_channel_id (validatedBody req))
            (generated d region req its) \<and>
        cart = new_cart d (final_toCreate d req region)
                 (items_of (db w) (new_cart_id d) @ attached d (generated d region req its)) \<and>
        w' = \<lparr>db = (with_cart d (final_toCreate d req region) (db w))\<lparr>line_items :=
                     line_items (db w) @ attached d (generated d region req its)\<rparr>,
              calls = calls w @ RegionList # customer_calls req @
                CartCreate (final_toCreate d req region) # map (gen_call region req) its @
                [IsFeatureEnabled ''sales_channels'',
                 AddLineItems (new_cart_id d) (generated d region req its)
                   (isFeatureEnabled d ''sales_channels''),
                 RetrieveWithTotals (new_cart_id d)]\<rparr>))"
proof -
  from create_cart_succeeds [OF assms(1)] assms(2) have ok: "customer_ok d req" by auto
  show ?thesis
  proof (cases "no_items req")
    case True
    from create_cart_no_items [OF assms(2) ok True, of w] assms(1) ok True show ?thesis by simp
  next
    case False
    then obtain its where its: "body_items (validatedBody req) = Some its" "its \<noteq> []"
      by (auto simp: no_items_def)
    show ?thesis
    proof (cases "\<exists>it\<in>set its. isl (gen_of d region req it)")
      case True
      from create_cart_generate_fails [OF assms(2) ok its(1) True, of w] assms(1)
      show ?thesis by auto
    next
      case False
      then have all: "\<forall>it\<in>set its. \<exists>li. gen_of d region req it = Inr li"
        by (metis sum.collapse(2))
      from create_cart_attach [OF assms(2) ok its all, of w] assms(1)
      have "\<not> attach_rejected d (body_sales_channel_id (validatedBody req))
              (generated d region req its)"
        and "cart = new_cart d (final_toCreate d req region)
                 (items_of (db w) (new_cart_id d) @ attached d (generated d region req its))"
        and "w' = \<lparr>db = (with_cart d (final_toCreate d req region) (db w))\<lparr>line_items :=
                     line_items (db w) @ attached d (generated d region req its)\<rparr>,
              calls = calls w @ RegionList # customer_calls req @
                CartCreate (final_toCreate d req region) # map (gen_call region req) its @
                [IsFeatureEnabled ''sales_channels'',
                 AddLineItems (new_cart_id d) (generated d region req its)
                   (isFeatureEnabled d ''sales_channels''),
                 RetrieveWithTotals (new_cart_id d)]\<rparr>"
        by (simp_all split: if_splits)
      with ok its all show ?thesis by blast
    qed
  qed
qed

lemma new_cart_sel [simp]:
  "cart_id (new_cart d tc lis) = new_cart_id d"
  "cart_items (new_cart d tc lis) = lis"
  "cart_region_id (new_cart d tc lis) = cart_region_id tc"
  "cart_sales_channel_id (new_cart d tc lis) = cart_sales_channel_id tc"
  "cart_context (new_cart d tc lis) = cart_context tc"
  "cart_customer_id (new_cart d tc lis) = cart_customer_id tc"
  "cart_email (new_cart d tc lis) = cart_email tc"
  "cart_shipping_address (new_cart d tc lis) = cart_shipping_address tc"
  by (simp_all add: new_cart_def Cart.defs CartCreateProps.defs)

lemma final_toCreate_region [simp]:
  "cart_region_id (final_toCreate d req region) = reg_id region"
  by (simp add: final_toCreate_def with_country_def initial_toCreate_def)

lemma create_cart_persisted:
  assumes "create_cart d req w = (Inr cart, w')"
    and "resolve_region (validatedBody req) (regions d) = Inr (Some region)"
  shows "cart_id cart = new_cart_id d"
    and "carts (db w') (new_cart_id d) = Some (final_toCreate d req region)"
    and "\<exists>lis. cart = new_cart d (final_toCreate d req region) lis"
  using create_cart_success_cases [OF assms]
  by (auto simp: with_cart_def)

lemmas create_cart_eval = create_cart_def build_toCreate_def bnd_def ret_def throw_def lift_def
  call_def called_def regionService_list_def resolve_region_def read_property_def
  with_customer_def initial_toCreate_def with_country_def transaction_def tx_body_def
  cartServiceTx_create_def cartServiceTx_addLineItems_def cartService_retrieveWithTotals_def
  lineItemServiceTx_generate_def featureFlagRouter_isFeatureEnabled_def truthy_def
  user_customer_def reqContext_def spread_def generate_context_def customerService_retrieve_call_def
  start_def Cart.defs CartCreateProps.defs

lemma start_sel [simp]: "db (start s) = s" "calls (start s) = []"
  by (simp_all add: start_def)

lemma is_create_CartCreate [simp]: "is_create (CartCreate tc)"
  by (simp add: is_create_def)

lemma attach_rejected_nonempty: "attach_rejected d ch (generated d region req its) \<Longrightarrow> its \<noteq> []"
  by (auto simp: attach_rejected_def generated_def)

lemma all_generated:
  "\<not> (\<exists>it\<in>set its. isl (gen_of d region req it)) \<Longrightarrow>
   \<forall>it\<in>set its. \<exists>li. gen_of d region req it = Inr li"
  by (metis sum.collapse(2))

lemma nth_generated:
  "\<forall>it\<in>set its. \<exists>li. gen_of d region req it = Inr li \<Longrightarrow> i < length its \<Longrightarrow>
   gen_of d region req (its ! i) = Inr (generated d region req its ! i)"
proof -
  assume all: "\<forall>it\<in>set its. \<exists>li. gen_of d region req it = Inr li" and i: "i < length its"
  then obtain li where "gen_of d region req (its ! i) = Inr li"
    using nth_mem by blast
  with i show ?thesis by (simp add: generated_def)
qed

lemma faithful_generated:
  assumes "generate_faithful d"
    and "\<forall>it\<in>set its. \<exists>li. gen_of d region req it = Inr li"
  shows "map (\<lambda>li. (li_variant_id li, li_quantity li)) (attached d (generated d region req its)) =
         map (\<lambda>it. (variant_id it, quantity it)) its"
proof -
  have "\<And>it. it \<in> set its \<Longrightarrow>
     li_variant_id (projr (gen_of d region req it)) = variant_id it \<and>
     li_quantity (projr (gen_of d region req it)) = quantity it"
  proof -
    fix it assume "it \<in> set its"
    with assms(2) obtain li where li: "gen_of d region req it = Inr li" by blast
    with assms(1) show "li_variant_id (projr (gen_of d region req it)) = variant_id it \<and>
     li_quantity (projr (gen_of d region req it)) = quantity it"
      unfolding generate_faithful_def gen_of_def by auto
  qed
  then show ?thesis
    by (simp add: attached_def generated_def comp_def)
qed

lemma items_of_attached:
  "items_of (s\<lparr>line_items := line_items s @ attached d lis\<rparr>) (new_cart_id d) =
   items_of s (new_cart_id d) @ attached d lis"
  by (simp add: items_of_def attached_def filter_id_conv)

lemma items_of_with_cart [simp]: "items_of (with_cart d tc s) cid = items_of s cid"
  by (simp add: items_of_def with_cart_def)

lemma shop_faithful: "generate_faithful (shop flag)"
  by (auto simp: generate_faithful_def shop_def shop_generate_def split: if_splits)

lemma final_toCreate_context [simp]:
  "cart_context (final_toCreate d req region) =
     reqContext req ++ spread (body_context (validatedBody req))"
  by (simp add: final_toCreate_def with_country_def initial_toCreate_def)

lemma create_cart_calls_create:
  assumes "create_cart d req w = (Inr cart, w')"
    and "resolve_region (validatedBody req) (regions d) = Inr (Some region)"
  shows "filter is_create (calls w') =
           filter is_create (calls w) @ [CartCreate (final_toCreate d req region)]"
  using create_cart_success_cases [OF assms]
  by (auto simp: customer_calls_def is_create_def gen_call_def filter_empty_conv)

lemma final_toCreate_customer:
  "truthy (user_customer req) \<Longrightarrow>
   customerService_retrieve d (the (user_customer req)) = Inr c \<Longrightarrow>
   cart_customer_id (final_toCreate d req region) = Some (cust_id c) \<and>
   cart_email (final_toCreate d req region) = Some (cust_email c)"
  by (simp add: final_toCreate_def with_country_def)

lemma final_toCreate_guest:
  "\<not> truthy (user_customer req) \<Longrightarrow>
   cart_customer_id (final_toCreate d req region) = None \<and>
   cart_email (final_toCreate d req region) = None"
  by (simp add: final_toCreate_def with_country_def initial_toCreate_def)

lemma create_cart_calls_customer:
  assumes "create_cart d req w = (Inr cart, w')"
  shows "set (customer_calls req) \<subseteq> set (calls w')"
proof -
  from create_cart_succeeds [OF assms] obtain region
    where region: "resolve_region (validatedBody req) (regions d) = Inr (Some region)"
    by blast
  from create_cart_success_cases [OF assms region] show ?thesis by auto
qed

lemma create_cart_cases:
  obtains
    (prepare_failed) e pre where
      "create_cart d req w = (Inl e, w\<lparr>calls := calls w @ RegionList # pre\<rparr>)"
      "pre = [] \<or> pre = customer_calls req"
      "\<And>region. \<not> (resolve_region (validatedBody req) (regions d) = Inr (Some region) \<and>
                     customer_ok d req)"
  | (no_items) region where
      "resolve_region (validatedBody req) (regions d) = Inr (Some region)"
      "customer_ok d req" "no_items req"
  | (generate_failed) region its where
      "resolve_region (validatedBody req) (regions d) = Inr (Some region)"
      "customer_ok d req" "body_items (validatedBody req) = Some its"
      "\<exists>it\<in>set its. isl (gen_of d region req it)"
  | (attach) region its where
      "resolve_region (validatedBody req) (regions d) = Inr (Some region)"
      "customer_ok d req" "body_items (validatedBody req) = Some its" "its \<noteq> []"
      "\<forall>it\<in>set its. \<exists>li. gen_of d region req it = Inr li"
proof (cases "fst (build_toCreate d req w)")
  case (Inl e)
  from build_toCreate_fails [OF Inl] obtain pre
    where w1: "snd (build_toCreate d req w) = w\<lparr>calls := calls w @ RegionList # pre\<rparr>"
      and pre: "pre = [] \<or> pre = customer_calls req"
    by blast
  have run: "create_cart d req w = (Inl e, w\<lparr>calls := calls w @ RegionList # pre\<rparr>)"
    using create_cart_prepare_fails [OF Inl] w1 by simp
  have "\<And>region. \<not> (resolve_region (validatedBody req) (regions d) = Inr (Some region) \<and>
                     customer_ok d req)"
  proof
    fix region
    assume "resolve_region (validatedBody req) (regions d) = Inr (Some region) \<and> customer_ok d req"
    then have "fst (build_toCreate d req w) = Inr (region, final_toCreate d req region)"
      by (simp add: build_toCreate_ok)
    with Inl show False by simp
  qed
  with run pre show ?thesis by (rule prepare_failed)
next
  case (Inr p)
  from build_toCreate_succeeds [of d req w "fst p" "snd p"] Inr
  have region: "resolve_region (validatedBody req) (regions d) = Inr (Some (fst p))"
    and ok: "customer_ok d req"
    by simp_all
  show ?thesis
  proof (cases "no_items req")
    case True
    with region ok show ?thesis by (rule no_items)
  next
    case False
    then obtain its where its: "body_items (validatedBody req) = Some its" "its \<noteq> []"
      by (auto simp: no_items_def)
    show ?thesis
    proof (cases "\<exists>it\<in>set its. isl (gen_of d (fst p) req it)")
      case True
      with region ok its(1) show ?thesis by (rule generate_failed)
    next
      case False
      from region ok its all_generated [OF False] show ?thesis by (rule attach)
    qed
  qed
qed

lemma no_item_call_simps [simp]:
  "\<not> is_generate RegionList" "\<not> is_generate (CustomerRetrieve c)" "\<not> is_generate (CartCreate tc)"
  "\<not> is_generate (RetrieveWithTotals c)" "\<not> is_generate (IsFeatureEnabled k)"
  "\<not> is_generate (AddLineItems c lis v)" "is_generate (Generate a b q g)"
  "\<not> is_attach RegionList" "\<not> is_attach (CustomerRetrieve c)" "\<not> is_attach (CartCreate tc)"
  "\<not> is_attach (RetrieveWithTotals c)" "\<not> is_attach (IsFeatureEnabled k)"
  "is_attach (AddLineItems c lis v)" "\<not> is_attach (Generate a b q g)"
  "\<not> is_flag RegionList" "\<not> is_flag (CustomerRetrieve c)" "\<not> is_flag (CartCreate tc)"
  "\<not> is_flag (RetrieveWithTotals c)" "is_flag (IsFeatureEnabled k)"
  "\<not> is_flag (AddLineItems c lis v)" "\<not> is_flag (Generate a b q g)"
  by (simp_all add: is_generate_def is_attach_def is_flag_def)

lemma customer_calls_plain [simp]:
  "ev \<in> set (customer_calls req) \<Longrightarrow> \<not> is_generate ev \<and> \<not> is_attach ev \<and> \<not> is_flag ev"
  by (auto simp: customer_calls_def split: if_splits)

lemma flag_consultations_simps [simp]:
  "flag_consultations [] = 0"
  "flag_consultations (xs @ ys) = flag_consultations xs + flag_consultations ys"
  "flag_consultations (RegionList # xs) = flag_consultations xs"
  "flag_consultations (CustomerRetrieve c # xs) = flag_consultations xs"
  "flag_consultations (CartCreate tc # xs) = flag_consultations xs"
  "flag_consultations (Generate a b q g # xs) = flag_consultations xs"
  "flag_consultations (AddLineItems c lis v # xs) = flag_consultations xs"
  "flag_consultations (RetrieveWithTotals c # xs) = flag_consultations xs"
  "flag_consultations (IsFeatureEnabled ''sales_channels'' # xs) = Suc (flag_consultations xs)"
  by (simp_all add: flag_consultations_def)

lemma flag_consultations_customer [simp]: "flag_consultations (customer_calls req) = 0"
  by (simp add: customer_calls_def)

lemma flag_consultations_generate [simp]:
  "flag_consultations (map (gen_call region req) its) = 0"
  by (induction its) (simp_all add: gen_call_def)

lemma filter_customer_calls [simp]:
  "filter is_flag (customer_calls req) = []" "filter is_attach (customer_calls req) = []"
  by (simp_all add: customer_calls_def)

lemma filter_generate_calls [simp]:
  "filter is_flag (map (gen_call region req) its) = []"
  "filter is_attach (map (gen_call region req) its) = []"
  by (induction its) (simp_all add: gen_call_def)

lemma gen_call_not_attach [simp]:
  "gen_call region req it \<noteq> AddLineItems c lis v"
  "AddLineItems c lis v \<noteq> gen_call region req it"
  by (simp_all add: gen_call_def)

lemma customer_calls_not_attach [simp]: "AddLineItems c lis v \<notin> set (customer_calls req)"
  by (simp add: customer_calls_def)

lemma isInt_iff: "isInt v \<longleftrightarrow> (\<exists>n::int. v = JNum (of_int n))"
proof (cases v)
  case (JNum q)
  have "q = of_int \<lfloor>q\<rfloor> \<longleftrightarrow> (\<exists>n::int. q = of_int n)"
    by (metis floor_of_int)
  with JNum show ?thesis by (simp add: isInt_def)
qed (simp_all add: isInt_def)

lemma variant_ok_iff:
  "isNotEmpty v \<and> isString v \<longleftrightarrow> (\<exists>s. s \<noteq> [] \<and> v = JStr s)"
  by (cases v) (simp_all add: isNotEmpty_def isString_def)

lemma validate_Item_iff:
  "validate_Item ri \<longleftrightarrow>
     (\<exists>s. s \<noteq> [] \<and> raw_variant_id ri = JStr s) \<and> (\<exists>n::int. raw_quantity ri = JNum (of_int n))"
proof -
  have "isInt (raw_quantity ri) \<Longrightarrow> isNotEmpty (raw_quantity ri)"
    by (auto simp: isInt_iff isNotEmpty_def)
  then show ?thesis
    unfolding validate_Item_def using variant_ok_iff [of "raw_variant_id ri"]
      isInt_iff [of "raw_quantity ri"] by blast
qed

section \<open>Atomicity of the creation\<close>

text \<open>
  C1. When the region and the customer are found, so that the transaction is entered, and
  line-item generation fails for some requested item, or the batch attach refuses the
  generated items, the request fails and the transaction is rolled back: the store is
  what it was before the request, no cart with the new cart's identifier exists and no
  line item of that cart exists, although the cart had been created inside the
  transaction; the cart is never read back.
\<close>

theorem failed_creation_leaves_no_cart:
  assumes "resolve_region (validatedBody req) (regions d) = Inr (Some region)"
    and "customer_ok d req"
    and "body_items (validatedBody req) = Some its"
    and "(\<exists>it\<in>set its. isl (gen_of d region req it)) \<or>
         attach_rejected d (body_sales_channel_id (validatedBody req)) (generated d region req its)"
    and "fresh_id d s"
  shows "\<exists>e w'. create_cart d req (start s) = (Inl e, w') \<and>
           db w' = s \<and>
           carts (db w') (new_cart_id d) = None \<and>
           items_of (db w') (new_cart_id d) = [] \<and>
           CartCreate (final_toCreate d req region) \<in> set (calls w') \<and>
           \<not> list_ex is_retrieve (calls w')"
proof (cases "\<exists>it\<in>set its. isl (gen_of d region req it)")
  case True
  from create_cart_generate_fails [OF assms(1,2,3) True, of "start s"]
  obtain e k where run: "create_cart d req (start s) =
     (Inl e,
      \<lparr>db = db (start s),
       calls = calls (start s) @ RegionList # customer_calls req @
         CartCreate (final_toCreate d req region) #
         map (gen_call region req) (take (Suc k) its)\<rparr>)"
    by blast
  show ?thesis
    using assms(5)
    by (auto simp add: run fresh_id_def customer_calls_def is_retrieve_def
        gen_call_def list_ex_iff)
next
  case False
  with assms(4) have rej: "attach_rejected d (body_sales_channel_id (validatedBody req))
      (generated d region req its)" by blast
  from create_cart_attach [OF assms(1,2,3) attach_rejected_nonempty [OF rej]
      all_generated [OF False], of "start s"] rej
  have run: "create_cart d req (start s) =
     (Inl (MedusaError INVALID_DATA ''The line item is not available in the sales channel''),
            \<lparr>db = db (start s),
             calls = calls (start s) @ RegionList # customer_calls req @
               CartCreate (final_toCreate d req region) # map (gen_call region req) its @
               [IsFeatureEnabled ''sales_channels'',
                AddLineItems (new_cart_id d) (generated d region req its) True]\<rparr>)"
    by simp
  show ?thesis
    using assms(5)
    by (auto simp add: run fresh_id_def customer_calls_def is_retrieve_def
        gen_call_def list_ex_iff)
qed

theorem failed_creation_leaves_no_cart_witness:
  "resolve_region (validatedBody (guest (plain_body\<lparr>body_items := Some three_items\<rparr>)))
     (regions (shop False)) = Inr (Some shop_region) \<and>
   customer_ok (shop False) (guest (plain_body\<lparr>body_items := Some three_items\<rparr>)) \<and>
   isl (gen_of (shop False) shop_region (guest (plain_body\<lparr>body_items := Some three_items\<rparr>))
          (three_items ! 1)) \<and>
   fresh_id (shop False) empty_store \<and>
   (\<exists>e w'. create_cart (shop False) (guest (plain_body\<lparr>body_items := Some three_items\<rparr>))
              (start empty_store) = (Inl e, w') \<and>
      db w' = empty_store \<and>
      carts (db w') ''cart_1'' = None \<and>
      items_of (db w') ''cart_1'' = [] \<and>
      list_ex is_create (calls w'))"
proof -
  let ?req = "guest (plain_body\<lparr>body_items := Some three_items\<rparr>)"
  have h1: "resolve_region (validatedBody ?req) (regions (shop False)) = Inr (Some shop_region)"
    by (simp add: resolve_region_def shop_defs)
  have h2: "customer_ok (shop False) ?req"
    by (simp add: customer_ok_def truthy_def user_customer_def shop_defs)
  have h3: "body_items (validatedBody ?req) = Some three_items"
    by (simp add: shop_defs)
  have bad: "isl (gen_of (shop False) shop_region ?req (three_items ! 1))"
    by (simp add: gen_of_def three_items_def shop_defs)
  then have h4: "(\<exists>it\<in>set three_items. isl (gen_of (shop False) shop_region ?req it)) \<or>
      attach_rejected (shop False) (body_sales_channel_id (validatedBody ?req))
        (generated (shop False) shop_region ?req three_items)"
    by (simp add: three_items_def)
  have h5: "fresh_id (shop False) empty_store"
    by (simp add: fresh_id_def items_of_def shop_defs)
  have nid: "new_cart_id (shop False) = ''cart_1''" by (simp add: shop_def)
  from failed_creation_leaves_no_cart [OF h1 h2 h3 h4 h5]
  obtain e w' where run: "create_cart (shop False) ?req (start empty_store) = (Inl e, w')"
    and rest: "db w' = empty_store" "carts (db w') ''cart_1'' = None"
      "items_of (db w') ''cart_1'' = []"
      "CartCreate (final_toCreate (shop False) ?req shop_region) \<in> set (calls w')"
    unfolding nid by blast
  from rest(4) have "list_ex is_create (calls w')"
    unfolding list_ex_iff using is_create_CartCreate by blast
  with run rest h1 h2 bad h5 show ?thesis by blast
qed

section \<open>Region resolution\<close>

text \<open>
  C2. A request that supplies no \<open>region_id\<close>: if the region listing is empty, creation
  fails with the handler's "A region is required to create a cart" error (the spec's
  ConfigurationError, a \<open>MedusaError\<close> of type \<open>INVALID_DATA\<close> in the code), the store is
  untouched and the only call made is the listing itself. If creation succeeds, the listing
  was not empty and the region of the returned cart, and of the row given to the cart
  service and persisted, is the first region in list order.
\<close>

theorem default_region_is_first:
  assumes "body_region_id (validatedBody req) = None"
  shows "(regions d = [] \<longrightarrow>
            create_cart d req (start s) =
              (Inl (MedusaError INVALID_DATA ''A region is required to create a cart''),
               \<lparr>db = s, calls = [RegionList]\<rparr>)) \<and>
         (\<forall>cart w'. create_cart d req (start s) = (Inr cart, w') \<longrightarrow>
            regions d \<noteq> [] \<and> cart_region_id cart = reg_id (hd (regions d)) \<and>
            (\<exists>row. carts (db w') (cart_id cart) = Some row \<and>
               cart_region_id row = reg_id (hd (regions d)) \<and>
               filter is_create (calls w') = [CartCreate row]))"
proof (intro conjI impI allI)
  assume "regions d = []"
  then show "create_cart d req (start s) =
      (Inl (MedusaError INVALID_DATA ''A region is required to create a cart''),
       \<lparr>db = s, calls = [RegionList]\<rparr>)"
    using assms
    by (simp add: create_cart_def build_toCreate_def bnd_def regionService_list_def call_def
        lift_def resolve_region_def called_def start_def)
next
  fix cart w'
  assume ok: "create_cart d req (start s) = (Inr cart, w')"
  from create_cart_succeeds [OF ok] obtain region
    where region: "resolve_region (validatedBody req) (regions d) = Inr (Some region)"
    by blast
  from region assms show ne: "regions d \<noteq> []"
    by (auto simp: resolve_region_def)
  then obtain r rs where rs: "regions d = r # rs" by (cases "regions d") auto
  with region assms have r: "region = r" by (simp add: resolve_region_def)
  from create_cart_persisted [OF ok region] obtain lis
    where cart: "cart = new_cart d (final_toCreate d req region) lis"
      and row: "carts (db w') (new_cart_id d) = Some (final_toCreate d req region)"
    by blast
  show "cart_region_id cart = reg_id (hd (regions d))"
    using cart r rs by simp
  have "filter is_create (calls w') = [CartCreate (final_toCreate d req region)]"
    using create_cart_calls_create [OF ok region] by simp
  then show "\<exists>row. carts (db w') (cart_id cart) = Some row \<and>
               cart_region_id row = reg_id (hd (regions d)) \<and>
               filter is_create (calls w') = [CartCreate row]"
    using cart row r rs by simp
qed

theorem default_region_is_first_witness:
  "body_region_id (validatedBody (guest plain_body)) = None \<and>
   regions (shop False) \<noteq> [] \<and>
   (\<exists>cart w'. create_cart (shop False) (guest plain_body) (start empty_store) = (Inr cart, w') \<and>
      cart_region_id cart = ''r1'' \<and>
      (\<exists>row. carts (db w') (cart_id cart) = Some row \<and> cart_region_id row = ''r1'')) \<and>
   create_cart ((shop False)\<lparr>regions := []\<rparr>) (guest plain_body) (start empty_store) =
     (Inl (MedusaError INVALID_DATA ''A region is required to create a cart''),
      \<lparr>db = empty_store, calls = [RegionList]\<rparr>)"
proof -
  have h: "body_region_id (validatedBody (guest plain_body)) = None"
    by (simp add: shop_defs)
  have "\<exists>c w'. create_cart (shop False) (guest plain_body) (start empty_store) = (Inr c, w')"
    by (simp add: create_cart_eval shop_defs)
  then obtain c w' where
    c: "create_cart (shop False) (guest plain_body) (start empty_store) = (Inr c, w')"
    by blast
  from default_region_is_first [OF h, of "shop False" empty_store] c
  have "regions (shop False) \<noteq> [] \<and> cart_region_id c = reg_id (hd (regions (shop False))) \<and>
    (\<exists>row. carts (db w') (cart_id c) = Some row \<and> cart_region_id row = reg_id (hd (regions (shop False))))"
    by blast
  moreover have "reg_id (hd (regions (shop False))) = ''r1''" by (simp add: shop_defs)
  moreover from default_region_is_first [OF h, of "(shop False)\<lparr>regions := []\<rparr>" empty_store]
  have "create_cart ((shop False)\<lparr>regions := []\<rparr>) (guest plain_body) (start empty_store) =
     (Inl (MedusaError INVALID_DATA ''A region is required to create a cart''),
      \<lparr>db = empty_store, calls = [RegionList]\<rparr>)" by simp
  ultimately show ?thesis using h c by auto
qed

section \<open>Line items of the created cart\<close>

text \<open>
  C3. A request with a non-empty \<open>items\<close> list that succeeds: the cart returned has one line
  item for each requested item, in request order, the i-th being what \<open>generate\<close> returned
  for the i-th requested item, attached to the new cart; when the generator keeps the
  variant and quantity it is asked for, the (variant, quantity) pairs of the line items are
  those of the request. The calls made are: the creation, one \<open>generate\<close> per item in input
  order, the flag, a single \<open>addLineItems\<close> with the whole collected list, and the read.
\<close>

theorem line_items_follow_request:
  assumes "create_cart d req (start s) = (Inr cart, w')"
    and "resolve_region (validatedBody req) (regions d) = Inr (Some region)"
    and "body_items (validatedBody req) = Some its"
    and "its \<noteq> []"
    and "fresh_id d s"
  shows "cart_items cart = attached d (generated d region req its) \<and>
         length (cart_items cart) = length its \<and>
         (\<forall>i<length its. gen_of d region req (its ! i) = Inr (generated d region req its ! i)) \<and>
         (generate_faithful d \<longrightarrow>
            map (\<lambda>li. (li_variant_id li, li_quantity li)) (cart_items cart) =
            map (\<lambda>it. (variant_id it, quantity it)) its) \<and>
         items_of (db w') (cart_id cart) = cart_items cart \<and>
         calls w' = RegionList # customer_calls req @
            CartCreate (final_toCreate d req region) # map (gen_call region req) its @
            [IsFeatureEnabled ''sales_channels'',
             AddLineItems (new_cart_id d) (generated d region req its)
               (isFeatureEnabled d ''sales_channels''),
             RetrieveWithTotals (new_cart_id d)]"
proof -
  from assms(3,4) have ni: "\<not> no_items req" by (simp add: no_items_def)
  from create_cart_success_cases [OF assms(1,2)] ni assms(3)
  have gens: "\<forall>it\<in>set its. \<exists>li. gen_of d region req it = Inr li"
    and cart: "cart = new_cart d (final_toCreate d req region)
                 (items_of (db (start s)) (new_cart_id d) @ attached d (generated d region req its))"
    and w': "w' = \<lparr>db = (with_cart d (final_toCreate d req region) (db (start s)))\<lparr>line_items :=
                     line_items (db (start s)) @ attached d (generated d region req its)\<rparr>,
              calls = calls (start s) @ RegionList # customer_calls req @
                CartCreate (final_toCreate d req region) # map (gen_call region req) its @
                [IsFeatureEnabled ''sales_channels'',
                 AddLineItems (new_cart_id d) (generated d region req its)
                   (isFeatureEnabled d ''sales_channels''),
                 RetrieveWithTotals (new_cart_id d)]\<rparr>"
    by auto
  from assms(5) have fresh: "items_of s (new_cart_id d) = []" by (simp add: fresh_id_def)
  have items: "cart_items cart = attached d (generated d region req its)"
    using cart fresh by simp
  have len: "length (cart_items cart) = length its"
    by (simp add: items attached_def generated_def)
  have nth: "\<forall>i<length its. gen_of d region req (its ! i) = Inr (generated d region req its ! i)"
    using nth_generated [OF gens] by blast
  have faithful: "generate_faithful d \<longrightarrow>
            map (\<lambda>li. (li_variant_id li, li_quantity li)) (cart_items cart) =
            map (\<lambda>it. (variant_id it, quantity it)) its"
    using faithful_generated [OF _ gens] items by simp
  have stored: "items_of (db w') (cart_id cart) = cart_items cart"
    using fresh by (simp add: w' cart items_of_def with_cart_def attached_def filter_id_conv)
  have tr: "calls w' = RegionList # customer_calls req @
            CartCreate (final_toCreate d req region) # map (gen_call region req) its @
            [IsFeatureEnabled ''sales_channels'',
             AddLineItems (new_cart_id d) (generated d region req its)
               (isFeatureEnabled d ''sales_channels''),
             RetrieveWithTotals (new_cart_id d)]"
    by (simp add: w')
  from items len nth faithful stored tr show ?thesis by blast
qed

theorem line_items_follow_request_witness:
  "\<exists>cart w'. create_cart (shop True) (guest (plain_body\<lparr>body_items := Some two_items\<rparr>))
       (start empty_store) = (Inr cart, w') \<and>
     fresh_id (shop True) empty_store \<and>
     length (cart_items cart) = 2 \<and>
     map (\<lambda>li. (li_variant_id li, li_quantity li)) (cart_items cart) = [(''v1'', 2), (''v3'', 1)] \<and>
     map li_cart_id (cart_items cart) = [Some ''cart_1'', Some ''cart_1''] \<and>
     filter is_attach (calls w') =
       [AddLineItems ''cart_1''
          (generated (shop True) shop_region (guest (plain_body\<lparr>body_items := Some two_items\<rparr>))
             two_items) True]"
proof -
  let ?req = "guest (plain_body\<lparr>body_items := Some two_items\<rparr>)"
  have "\<exists>c w'. create_cart (shop True) ?req (start empty_store) = (Inr c, w')"
    by (simp add: create_cart_eval shop_defs two_items_def)
  then obtain c w' where run: "create_cart (shop True) ?req (start empty_store) = (Inr c, w')"
    by blast
  have h2: "resolve_region (validatedBody ?req) (regions (shop True)) = Inr (Some shop_region)"
    by (simp add: resolve_region_def shop_defs)
  have h3: "body_items (validatedBody ?req) = Some two_items"
    by (simp add: shop_defs)
  have h4: "two_items \<noteq> []" by (simp add: two_items_def)
  have h5: "fresh_id (shop True) empty_store"
    by (simp add: fresh_id_def items_of_def shop_defs)
  note main = line_items_follow_request [OF run h2 h3 h4 h5]
  from main have items: "cart_items c = attached (shop True) (generated (shop True) shop_region ?req two_items)"
    by blast
  from main shop_faithful
  have pairs: "map (\<lambda>li. (li_variant_id li, li_quantity li)) (cart_items c) =
            map (\<lambda>it. (variant_id it, quantity it)) two_items"
    by blast
  from main have len: "length (cart_items c) = length two_items" by blast
  from main have tr: "calls w' = RegionList # customer_calls ?req @
            CartCreate (final_toCreate (shop True) ?req shop_region) #
            map (gen_call shop_region ?req) two_items @
            [IsFeatureEnabled ''sales_channels'',
             AddLineItems (new_cart_id (shop True)) (generated (shop True) shop_region ?req two_items)
               (isFeatureEnabled (shop True) ''sales_channels''),
             RetrieveWithTotals (new_cart_id (shop True))]"
    by blast
  have a: "filter is_attach (calls w') =
       [AddLineItems ''cart_1'' (generated (shop True) shop_region ?req two_items) True]"
    unfolding tr
    by (simp add: is_attach_def customer_calls_def gen_call_def two_items_def shop_def
        truthy_def user_customer_def guest_def)
  have b: "map li_cart_id (cart_items c) = [Some ''cart_1'', Some ''cart_1'']"
    unfolding items by (simp add: attached_def generated_def two_items_def shop_def)
  from run h5 len pairs a b show ?thesis
    by (simp add: two_items_def item_def)
qed

section \<open>An explicit region that does not exist\<close>

text \<open>
  C4. With one region \<open>r1\<close> (and \<open>r2\<close>) in the listing, a request for region \<open>r9\<close>: \<open>regions.find\<close>
  yields \<open>undefined\<close>, nothing guards it, and reading \<open>region.id\<close> throws a \<open>TypeError\<close>.
  Nothing is persisted and the only call made is the listing; the error is not the
  not-found error of the claim.
\<close>

theorem unknown_region_id_type_error:
  "create_cart (shop False) (guest (plain_body\<lparr>body_region_id := Some ''r9''\<rparr>))
     (start empty_store) =
   (Inl (TypeError ''Cannot read properties of undefined (reading id)''),
    \<lparr>db = empty_store, calls = [RegionList]\<rparr>)"
  by (simp add: create_cart_eval shop_defs)

section \<open>Context of the created cart\<close>

text \<open>
  C5. A successful creation: the context given to the cart service, kept in the persisted
  row and returned with the cart, is the automatically populated \<open>ip\<close> and \<open>user_agent\<close>
  with the caller's context merged on top. It always has the keys \<open>ip\<close> and \<open>user_agent\<close>;
  every key the caller supplies has the caller's value, and every other key has the
  automatically populated value.
\<close>

theorem caller_context_wins:
  assumes "create_cart d req (start s) = (Inr cart, w')"
  shows "cart_context cart = reqContext req ++ spread (body_context (validatedBody req)) \<and>
         ''ip'' \<in> dom (cart_context cart) \<and>
         ''user_agent'' \<in> dom (cart_context cart) \<and>
         (\<forall>k v. spread (body_context (validatedBody req)) k = Some v \<longrightarrow>
                cart_context cart k = Some v) \<and>
         (\<forall>k. spread (body_context (validatedBody req)) k = None \<longrightarrow>
              cart_context cart k = reqContext req k) \<and>
         (\<exists>row. carts (db w') (cart_id cart) = Some row \<and>
                cart_context row = cart_context cart \<and>
                filter is_create (calls w') = [CartCreate row])"
proof -
  from create_cart_succeeds [OF assms] obtain region
    where region: "resolve_region (validatedBody req) (regions d) = Inr (Some region)"
    by blast
  from create_cart_persisted [OF assms region] obtain lis
    where cart: "cart = new_cart d (final_toCreate d req region) lis"
      and row: "carts (db w') (new_cart_id d) = Some (final_toCreate d req region)"
    by blast
  have ctx: "cart_context cart = reqContext req ++ spread (body_context (validatedBody req))"
    by (simp add: cart)
  have ip: "''ip'' \<in> dom (cart_context cart)" and ua: "''user_agent'' \<in> dom (cart_context cart)"
    by (auto simp: ctx reqContext_def)
  have win: "\<forall>k v. spread (body_context (validatedBody req)) k = Some v \<longrightarrow>
                cart_context cart k = Some v"
    by (simp add: ctx)
  have keep: "\<forall>k. spread (body_context (validatedBody req)) k = None \<longrightarrow>
              cart_context cart k = reqContext req k"
    by (simp add: ctx map_add_def)
  have tr: "filter is_create (calls w') = [CartCreate (final_toCreate d req region)]"
    using create_cart_calls_create [OF assms region] by simp
  have "carts (db w') (cart_id cart) = Some (final_toCreate d req region) \<and>
        cart_context (final_toCreate d req region) = cart_context cart \<and>
        filter is_create (calls w') = [CartCreate (final_toCreate d req region)]"
    using row tr by (simp add: cart)
  then have stored: "\<exists>row. carts (db w') (cart_id cart) = Some row \<and>
                cart_context row = cart_context cart \<and>
                filter is_create (calls w') = [CartCreate row]"
    by blast
  from ctx ip ua win keep stored show ?thesis by blast
qed

theorem caller_context_wins_witness:
  "\<exists>cart w'. create_cart (shop False)
       (guest (plain_body\<lparr>body_context := Some [''ip'' \<mapsto> JStr ''10.0.0.1'', ''tag'' \<mapsto> JNum 7]\<rparr>))
       (start empty_store) = (Inr cart, w') \<and>
     cart_context cart ''ip'' = Some (JStr ''10.0.0.1'') \<and>
     cart_context cart ''user_agent'' = Some (JStr ''Chrome'') \<and>
     cart_context cart ''tag'' = Some (JNum 7)"
proof -
  let ?req = "guest (plain_body\<lparr>body_context := Some [''ip'' \<mapsto> JStr ''10.0.0.1'', ''tag'' \<mapsto> JNum 7]\<rparr>)"
  have "\<exists>c w'. create_cart (shop False) ?req (start empty_store) = (Inr c, w')"
    by (simp add: create_cart_eval shop_defs)
  then obtain c w' where run: "create_cart (shop False) ?req (start empty_store) = (Inr c, w')"
    by blast
  from caller_context_wins [OF run]
  have win: "\<forall>k v. spread (body_context (validatedBody ?req)) k = Some v \<longrightarrow>
                cart_context c k = Some v"
    and keep: "\<forall>k. spread (body_context (validatedBody ?req)) k = None \<longrightarrow>
              cart_context c k = reqContext ?req k"
    by blast+
  have "spread (body_context (validatedBody ?req)) ''ip'' = Some (JStr ''10.0.0.1'')"
    and "spread (body_context (validatedBody ?req)) ''tag'' = Some (JNum 7)"
    and "spread (body_context (validatedBody ?req)) ''user_agent'' = None"
    and "reqContext ?req ''user_agent'' = Some (JStr ''Chrome'')"
    by (simp_all add: spread_def reqContext_def shop_defs)
  with win keep run show ?thesis by auto
qed

section \<open>Malformed items\<close>

text \<open>
  C6, as the code has it. A request with an item whose variant id is missing, empty or
  not a string, or whose quantity is missing or not an integer number, is rejected with a
  \<open>ValidationError\<close> before the handler runs: no call is made and the store is untouched.
  The decorators of \<open>Item\<close> put no lower bound on the quantity: an item with a non-empty
  variant id and any integer quantity, positive or not, passes.
\<close>

theorem malformed_item_rejected:
  "(ri \<in> set ris \<and>
      ((\<forall>v. v \<noteq> [] \<longrightarrow> raw_variant_id ri \<noteq> JStr v) \<or>
       (\<forall>n::int. raw_quantity ri \<noteq> JNum (of_int n))) \<longrightarrow>
      post_carts d (Some ris) req w = (Inl (ValidationError ''items''), w)) \<and>
   (\<forall>v q. v \<noteq> [] \<longrightarrow>
      validate_Item \<lparr>raw_variant_id = JStr v, raw_quantity = JNum (of_int q)\<rparr> \<and>
      transform_Item \<lparr>raw_variant_id = JStr v, raw_quantity = JNum (of_int q)\<rparr> =
        Some \<lparr>variant_id = v, quantity = q\<rparr>)"
proof (intro conjI impI allI)
  assume h: "ri \<in> set ris \<and>
      ((\<forall>v. v \<noteq> [] \<longrightarrow> raw_variant_id ri \<noteq> JStr v) \<or>
       (\<forall>n::int. raw_quantity ri \<noteq> JNum (of_int n)))"
  then have "\<not> validate_Item ri" unfolding validate_Item_iff by blast
  with h have "\<not> list_all validate_Item ris" by (auto simp: list_all_iff)
  then show "post_carts d (Some ris) req w = (Inl (ValidationError ''items''), w)"
    by (simp add: post_carts_def transform_items_def throw_def)
next
  fix v :: string and q :: int
  assume v: "v \<noteq> []"
  then show "validate_Item \<lparr>raw_variant_id = JStr v, raw_quantity = JNum (of_int q)\<rparr>"
    by (simp add: validate_Item_iff)
  then show "transform_Item \<lparr>raw_variant_id = JStr v, raw_quantity = JNum (of_int q)\<rparr> =
        Some \<lparr>variant_id = v, quantity = q\<rparr>"
    by (simp add: transform_Item_def)
qed

theorem malformed_item_rejected_witness:
  "post_carts (shop False)
     (Some [\<lparr>raw_variant_id = JStr ''v1'', raw_quantity = JNum 2\<rparr>,
            \<lparr>raw_variant_id = JStr ''v3'', raw_quantity = JNum (3 / 2)\<rparr>])
     (guest plain_body) (start empty_store) =
     (Inl (ValidationError ''items''), start empty_store) \<and>
   post_carts (shop False)
     (Some [\<lparr>raw_variant_id = JUndefined, raw_quantity = JNum 2\<rparr>])
     (guest plain_body) (start empty_store) =
     (Inl (ValidationError ''items''), start empty_store) \<and>
   validate_Item \<lparr>raw_variant_id = JStr ''v1'', raw_quantity = JNum (of_int (- 1))\<rparr>"
proof -
  let ?half = "\<lparr>raw_variant_id = JStr ''v3'', raw_quantity = JNum (3 / 2)\<rparr>"
  let ?none = "\<lparr>raw_variant_id = JUndefined, raw_quantity = JNum 2\<rparr>"
  have frac: "\<forall>n::int. raw_quantity ?half \<noteq> JNum (of_int n)"
  proof
    fix n :: int
    have "(3 / 2 :: rat) \<noteq> of_int n"
    proof
      assume "(3 / 2 :: rat) = of_int n"
      then have "(of_int (2 * n) :: rat) = of_int 3" by simp
      then have "2 * n = 3" by (simp only: of_int_eq_iff)
      then show False by presburger
    qed
    then show "raw_quantity ?half \<noteq> JNum (of_int n)" by simp
  qed
  have a: "post_carts (shop False)
     (Some [\<lparr>raw_variant_id = JStr ''v1'', raw_quantity = JNum 2\<rparr>, ?half])
     (guest plain_body) (start empty_store) = (Inl (ValidationError ''items''), start empty_store)"
    using malformed_item_rejected [of ?half
        "[\<lparr>raw_variant_id = JStr ''v1'', raw_quantity = JNum 2\<rparr>, ?half]"
        "shop False" "guest plain_body" "start empty_store"] frac
    by simp
  have b: "post_carts (shop False) (Some [?none]) (guest plain_body) (start empty_store) =
     (Inl (ValidationError ''items''), start empty_store)"
    using malformed_item_rejected [of ?none "[?none]"
        "shop False" "guest plain_body" "start empty_store"]
    by simp
  have c: "validate_Item \<lparr>raw_variant_id = JStr ''v1'', raw_quantity = JNum (of_int (- 1))\<rparr>"
    using malformed_item_rejected [of ?none "[?none]"
        "shop False" "guest plain_body" "start empty_store"]
    by blast
  from a b c show ?thesis by blast
qed

text \<open>
  C6, as the spec states it, fails on a quantity of zero: the item passes the decorators,
  the handler runs and creates the cart inside the transaction, and the request is only
  refused later, by line-item generation, with an error that is not a validation error.
\<close>

theorem zero_quantity_counterexample:
  "validate_Item \<lparr>raw_variant_id = JStr ''v1'', raw_quantity = JNum 0\<rparr> \<and>
   fst (post_carts (shop False) (Some [\<lparr>raw_variant_id = JStr ''v1'', raw_quantity = JNum 0\<rparr>])
          (guest plain_body) (start empty_store)) =
     Inl (MedusaError INVALID_DATA ''invalid quantity'') \<and>
   list_ex is_create
     (calls (snd (post_carts (shop False)
        (Some [\<lparr>raw_variant_id = JStr ''v1'', raw_quantity = JNum 0\<rparr>])
        (guest plain_body) (start empty_store))))"
  by (simp add: post_carts_def transform_items_def transform_Item_def validate_Item_def
      isNotEmpty_def isString_def isInt_def List.map_filter_def create_cart_eval shop_defs)

section \<open>The sales-channels flag\<close>

text \<open>
  C7, as the code has it. The handler consults the \<open>sales_channels\<close> flag at most once, and
  no other flag; it consults it exactly when it calls \<open>addLineItems\<close>, that is when region
  and customer resolve, the request has at least one item and every item was generated;
  the \<open>validateSalesChannels\<close> option of every \<open>addLineItems\<close> call is the value of the flag;
  and in that case the request is refused by the attach exactly when the flag is enabled
  and the sales channel lacks one of the generated items.
\<close>

theorem flag_consulted_with_attach:
  "flag_consultations (calls (snd (create_cart d req (start s)))) \<le> 1 \<and>
   length (filter is_flag (calls (snd (create_cart d req (start s))))) =
     flag_consultations (calls (snd (create_cart d req (start s)))) \<and>
   length (filter is_attach (calls (snd (create_cart d req (start s))))) =
     flag_consultations (calls (snd (create_cart d req (start s)))) \<and>
   (\<forall>cid lis v. AddLineItems cid lis v \<in> set (calls (snd (create_cart d req (start s)))) \<longrightarrow>
      v = isFeatureEnabled d ''sales_channels'') \<and>
   (flag_consultations (calls (snd (create_cart d req (start s)))) = 1 \<longleftrightarrow>
      (\<exists>region its. resolve_region (validatedBody req) (regions d) = Inr (Some region) \<and>
         customer_ok d req \<and> body_items (validatedBody req) = Some its \<and> its \<noteq> [] \<and>
         (\<forall>it\<in>set its. \<exists>li. gen_of d region req it = Inr li))) \<and>
   (\<forall>region its. resolve_region (validatedBody req) (regions d) = Inr (Some region) \<and>
         customer_ok d req \<and> body_items (validatedBody req) = Some its \<and> its \<noteq> [] \<and>
         (\<forall>it\<in>set its. \<exists>li. gen_of d region req it = Inr li) \<longrightarrow>
      (isl (fst (create_cart d req (start s))) \<longleftrightarrow>
         isFeatureEnabled d ''sales_channels'' \<and>
         \<not> list_all (sales_channel_carries d (body_sales_channel_id (validatedBody req)))
             (generated d region req its)))"
  (is "?once \<and> ?only \<and> ?attach \<and> ?option \<and> ?when \<and> ?validates")
proof -
  let ?reached = "\<exists>region its. resolve_region (validatedBody req) (regions d) = Inr (Some region) \<and>
         customer_ok d req \<and> body_items (validatedBody req) = Some its \<and> its \<noteq> [] \<and>
         (\<forall>it\<in>set its. \<exists>li. gen_of d region req it = Inr li)"
  have v: ?validates
  proof (intro allI impI)
    fix region its
    assume h: "resolve_region (validatedBody req) (regions d) = Inr (Some region) \<and>
         customer_ok d req \<and> body_items (validatedBody req) = Some its \<and> its \<noteq> [] \<and>
         (\<forall>it\<in>set its. \<exists>li. gen_of d region req it = Inr li)"
    then have "create_cart d req (start s) = 
      (if attach_rejected d (body_sales_channel_id (validatedBody req)) (generated d region req its)
      then (Inl (MedusaError INVALID_DATA ''The line item is not available in the sales channel''),
            \<lparr>db = db (start s),
             calls = calls (start s) @ RegionList # customer_calls req @
               CartCreate (final_toCreate d req region) # map (gen_call region req) its @
               [IsFeatureEnabled ''sales_channels'',
                AddLineItems (new_cart_id d) (generated d region req its) True]\<rparr>)
      else (Inr (new_cart d (final_toCreate d req region)
                   (items_of (db (start s)) (new_cart_id d) @ attached d (generated d region req its))),
            \<lparr>db = (with_cart d (final_toCreate d req region) (db (start s)))\<lparr>line_items :=
                    line_items (db (start s)) @ attached d (generated d region req its)\<rparr>,
             calls = calls (start s) @ RegionList # customer_calls req @
               CartCreate (final_toCreate d req region) # map (gen_call region req) its @
               [IsFeatureEnabled ''sales_channels'',
                AddLineItems (new_cart_id d) (generated d region req its)
                  (isFeatureEnabled d ''sales_channels''),
                RetrieveWithTotals (new_cart_id d)]\<rparr>))"
      using create_cart_attach [of req d region its "start s"] by blast
    then show "isl (fst (create_cart d req (start s))) \<longleftrightarrow>
         isFeatureEnabled d ''sales_channels'' \<and>
         \<not> list_all (sales_channel_carries d (body_sales_channel_id (validatedBody req)))
             (generated d region req its)"
      by (simp add: attach_rejected_def)
  qed
  have "?once \<and> ?only \<and> ?attach \<and> ?option \<and> ?when"
  proof (cases rule: create_cart_cases [of d req "start s"])
    case (prepare_failed e pre)
    have "\<not> ?reached" using prepare_failed(3) by blast
    moreover have "flag_consultations (calls (snd (create_cart d req (start s)))) = 0"
      and "filter is_flag (calls (snd (create_cart d req (start s)))) = []"
      and "filter is_attach (calls (snd (create_cart d req (start s)))) = []"
      and "\<forall>cid lis v. AddLineItems cid lis v \<notin> set (calls (snd (create_cart d req (start s))))"
      using prepare_failed(1,2) by auto
    ultimately show ?thesis by simp
  next
    case (no_items region)
    have "\<not> ?reached" using no_items(3) by (auto simp: no_items_def)
    moreover have "flag_consultations (calls (snd (create_cart d req (start s)))) = 0"
      and "filter is_flag (calls (snd (create_cart d req (start s)))) = []"
      and "filter is_attach (calls (snd (create_cart d req (start s)))) = []"
      and "\<forall>cid lis v. AddLineItems cid lis v \<notin> set (calls (snd (create_cart d req (start s))))"
      by (simp_all add: create_cart_no_items [OF no_items])
    ultimately show ?thesis by simp
  next
    case (generate_failed region its)
    have "\<not> ?reached"
    proof
      assume ?reached
      then obtain region' its' where
        r': "resolve_region (validatedBody req) (regions d) = Inr (Some region')"
        and i': "body_items (validatedBody req) = Some its'"
        and g': "\<forall>it\<in>set its'. \<exists>li. gen_of d region' req it = Inr li"
        by blast
      from r' generate_failed(1) have "region' = region" by simp
      moreover from i' generate_failed(3) have "its' = its" by simp
      ultimately show False using g' generate_failed(4) by auto
    qed
    moreover from create_cart_generate_fails [OF generate_failed, of "start s"]
    obtain e k where run: "create_cart d req (start s) =
       (Inl e,
        \<lparr>db = db (start s),
         calls = calls (start s) @ RegionList # customer_calls req @
           CartCreate (final_toCreate d req region) #
           map (gen_call region req) (take (Suc k) its)\<rparr>)"
      by blast
    have "flag_consultations (calls (snd (create_cart d req (start s)))) = 0"
      and "filter is_flag (calls (snd (create_cart d req (start s)))) = []"
      and "filter is_attach (calls (snd (create_cart d req (start s)))) = []"
      and "\<forall>cid lis v. AddLineItems cid lis v \<notin> set (calls (snd (create_cart d req (start s))))"
      by (auto simp add: run)
    ultimately show ?thesis by simp
  next
    case (attach region its)
    then have reached: ?reached by blast
    have "flag_consultations (calls (snd (create_cart d req (start s)))) = 1"
      and "length (filter is_flag (calls (snd (create_cart d req (start s))))) = 1"
      and "length (filter is_attach (calls (snd (create_cart d req (start s))))) = 1"
      and "\<forall>cid lis v. AddLineItems cid lis v \<in> set (calls (snd (create_cart d req (start s)))) \<longrightarrow>
             v = isFeatureEnabled d ''sales_channels''"
      by (auto simp add: create_cart_attach [OF attach] attach_rejected_def)
    with reached show ?thesis by simp
  qed
  with v show ?thesis by blast
qed

theorem flag_consulted_with_attach_witness:
  "resolve_region (validatedBody (guest (plain_body\<lparr>body_items := Some two_items\<rparr>)))
     (regions (shop True)) = Inr (Some shop_region) \<and>
   customer_ok (shop True) (guest (plain_body\<lparr>body_items := Some two_items\<rparr>)) \<and>
   list_all (\<lambda>it. \<not> isl (gen_of (shop True) shop_region
      (guest (plain_body\<lparr>body_items := Some two_items\<rparr>)) it)) two_items \<and>
   flag_consultations (calls (snd (create_cart (shop True)
      (guest (plain_body\<lparr>body_items := Some two_items\<rparr>)) (start empty_store)))) = 1 \<and>
   length (filter is_attach (calls (snd (create_cart (shop True)
      (guest (plain_body\<lparr>body_items := Some two_items\<rparr>)) (start empty_store))))) = 1 \<and>
   \<not> isl (fst (create_cart (shop True)
      (guest (plain_body\<lparr>body_items := Some two_items\<rparr>)) (start empty_store)))"
proof -
  let ?req = "guest (plain_body\<lparr>body_items := Some two_items\<rparr>)"
  have region: "resolve_region (validatedBody ?req) (regions (shop True)) = Inr (Some shop_region)"
    by (simp add: resolve_region_def shop_defs)
  have ok: "customer_ok (shop True) ?req"
    by (simp add: customer_ok_def truthy_def user_customer_def shop_defs)
  have its: "body_items (validatedBody ?req) = Some two_items" "two_items \<noteq> []"
    by (simp_all add: shop_defs two_items_def)
  have gens: "\<forall>it\<in>set two_items. \<exists>li. gen_of (shop True) shop_region ?req it = Inr li"
    by (simp add: gen_of_def two_items_def shop_defs)
  have carried: "list_all (sales_channel_carries (shop True)
      (body_sales_channel_id (validatedBody ?req))) (generated (shop True) shop_region ?req two_items)"
    by (simp add: generated_def gen_of_def two_items_def shop_defs)
  note main = flag_consulted_with_attach [of "shop True" ?req empty_store]
  from main region ok its gens
  have once: "flag_consultations (calls (snd (create_cart (shop True) ?req (start empty_store)))) = 1"
    by blast
  from main have "length (filter is_attach (calls (snd (create_cart (shop True) ?req (start empty_store))))) =
     flag_consultations (calls (snd (create_cart (shop True) ?req (start empty_store))))"
    by blast
  with once have one_attach:
    "length (filter is_attach (calls (snd (create_cart (shop True) ?req (start empty_store))))) = 1"
    by simp
  from main region ok its gens
  have "isl (fst (create_cart (shop True) ?req (start empty_store))) \<longleftrightarrow>
         isFeatureEnabled (shop True) ''sales_channels'' \<and>
         \<not> list_all (sales_channel_carries (shop True) (body_sales_channel_id (validatedBody ?req)))
             (generated (shop True) shop_region ?req two_items)"
    by blast
  with carried have accepted: "\<not> isl (fst (create_cart (shop True) ?req (start empty_store)))"
    by simp
  have gens': "list_all (\<lambda>it. \<not> isl (gen_of (shop True) shop_region ?req it)) two_items"
    by (simp add: gen_of_def two_items_def shop_defs)
  from region ok gens' once one_attach accepted show ?thesis by blast
qed

text \<open>
  C7, as the spec states it ("consulted once per request"), fails on a request without
  items: the creation succeeds and the flag is not consulted at all.
\<close>

theorem flag_not_consulted_counterexample:
  "\<not> isl (fst (create_cart (shop True) (guest plain_body) (start empty_store))) \<and>
   flag_consultations
     (calls (snd (create_cart (shop True) (guest plain_body) (start empty_store)))) = 0"
  by (simp add: create_cart_eval shop_defs flag_consultations_def)

section \<open>Customer of the created cart\<close>

text \<open>
  C8. A request with an authenticated customer (\<open>req.user.customer_id\<close> set and not empty).
  If the creation succeeds, the customer record was fetched by that identifier from the
  customer service, and the \<open>customer_id\<close> and \<open>email\<close> given to the cart service and found on
  the returned cart are the identifier and email of the fetched record. If moreover the
  record can be fetched, the region resolves, the request has no items and the new
  identifier is unused, the creation does succeed, and the cart has that customer, that
  email and no line items.
\<close>

theorem customer_is_refetched:
  assumes "user req = Some u"
    and "user_customer_id u = Some cid"
    and "cid \<noteq> []"
  shows "(\<forall>cart w'. create_cart d req (start s) = (Inr cart, w') \<longrightarrow>
            (\<exists>c. customerService_retrieve d cid = Inr c \<and>
                 cart_customer_id cart = Some (cust_id c) \<and>
                 cart_email cart = Some (cust_email c) \<and>
                 (\<exists>row. filter is_create (calls w') = [CartCreate row] \<and>
                        cart_customer_id row = Some (cust_id c) \<and>
                        cart_email row = Some (cust_email c))) \<and>
            CustomerRetrieve cid \<in> set (calls w')) \<and>
         (\<forall>c region. customerService_retrieve d cid = Inr c \<and>
              resolve_region (validatedBody req) (regions d) = Inr (Some region) \<and>
              no_items req \<and> fresh_id d s \<longrightarrow>
            (\<exists>cart w'. create_cart d req (start s) = (Inr cart, w') \<and>
                 cart_customer_id cart = Some (cust_id c) \<and>
                 cart_email cart = Some (cust_email c) \<and>
                 cart_items cart = []))"
proof (intro conjI allI impI)
  have uc: "user_customer req = Some cid" using assms by (simp add: user_customer_def)
  then have tr: "truthy (user_customer req)" using assms(3) by (simp add: truthy_def)
  {
    fix cart w'
    assume run: "create_cart d req (start s) = (Inr cart, w')"
    from create_cart_succeeds [OF run] obtain region
      where region: "resolve_region (validatedBody req) (regions d) = Inr (Some region)"
        and ok: "customer_ok d req"
      by blast
    from ok tr uc obtain c where c: "customerService_retrieve d cid = Inr c"
      by (auto simp: customer_ok_def)
    from create_cart_persisted [OF run region] obtain lis
      where cart: "cart = new_cart d (final_toCreate d req region) lis"
      by blast
    from final_toCreate_customer [OF tr, of d c region] c uc
    have fields: "cart_customer_id (final_toCreate d req region) = Some (cust_id c)"
      "cart_email (final_toCreate d req region) = Some (cust_email c)"
      by simp_all
    have created: "filter is_create (calls w') = [CartCreate (final_toCreate d req region)]"
      using create_cart_calls_create [OF run region] by simp
    show "\<exists>c. customerService_retrieve d cid = Inr c \<and>
                 cart_customer_id cart = Some (cust_id c) \<and>
                 cart_email cart = Some (cust_email c) \<and>
                 (\<exists>row. filter is_create (calls w') = [CartCreate row] \<and>
                        cart_customer_id row = Some (cust_id c) \<and>
                        cart_email row = Some (cust_email c))"
      using c fields created by (auto simp: cart)
    show "CustomerRetrieve cid \<in> set (calls w')"
      using create_cart_calls_customer [OF run] tr uc by (simp add: customer_calls_def)
  }
  {
    fix c region
    assume h: "customerService_retrieve d cid = Inr c \<and>
              resolve_region (validatedBody req) (regions d) = Inr (Some region) \<and>
              no_items req \<and> fresh_id d s"
    then have ok: "customer_ok d req" using uc by (simp add: customer_ok_def)
    from h have region: "resolve_region (validatedBody req) (regions d) = Inr (Some region)"
      and ni: "no_items req" and fresh: "items_of s (new_cart_id d) = []"
      by (simp_all add: fresh_id_def)
    from final_toCreate_customer [OF tr, of d c region] h uc
    have fields: "cart_customer_id (final_toCreate d req region) = Some (cust_id c)"
      "cart_email (final_toCreate d req region) = Some (cust_email c)"
      by simp_all
    show "\<exists>cart w'. create_cart d req (start s) = (Inr cart, w') \<and>
                 cart_customer_id cart = Some (cust_id c) \<and>
                 cart_email cart = Some (cust_email c) \<and>
                 cart_items cart = []"
      using fields fresh by (simp add: create_cart_no_items [OF region ok ni])
  }
qed

theorem customer_is_refetched_witness:
  "user (customer_c1 plain_body) =
     Some \<lparr>user_id = None, user_customer_id = Some ''c1''\<rparr> \<and>
   no_items (customer_c1 plain_body) \<and>
   fresh_id (shop False) empty_store \<and>
   (\<exists>cart w'. create_cart (shop False) (customer_c1 plain_body) (start empty_store) =
        (Inr cart, w') \<and>
      cart_customer_id cart = Some ''c1'' \<and>
      cart_email cart = Some ''a@b.com'' \<and>
      cart_items cart = [])"
proof -
  let ?u = "\<lparr>user_id = None, user_customer_id = Some ''c1''\<rparr>"
  have h1: "user (customer_c1 plain_body) = Some ?u"
    by (simp add: shop_defs)
  have h2: "user_customer_id ?u = Some ''c1''" by simp
  have h3: "''c1'' \<noteq> []" by simp
  have c: "customerService_retrieve (shop False) ''c1'' =
      Inr \<lparr>cust_id = ''c1'', cust_email = ''a@b.com''\<rparr>"
    by (simp add: shop_defs)
  have region: "resolve_region (validatedBody (customer_c1 plain_body)) (regions (shop False)) =
      Inr (Some shop_region)"
    by (simp add: resolve_region_def shop_defs)
  have ni: "no_items (customer_c1 plain_body)"
    by (simp add: no_items_def shop_defs)
  have fresh: "fresh_id (shop False) empty_store"
    by (simp add: fresh_id_def items_of_def shop_defs)
  from customer_is_refetched [OF h1 h2 h3, of "shop False" empty_store] c region ni fresh
  have "\<exists>cart w'. create_cart (shop False) (customer_c1 plain_body) (start empty_store) =
        (Inr cart, w') \<and>
      cart_customer_id cart = Some (cust_id \<lparr>cust_id = ''c1'', cust_email = ''a@b.com''\<rparr>) \<and>
      cart_email cart = Some (cust_email \<lparr>cust_id = ''c1'', cust_email = ''a@b.com''\<rparr>) \<and>
      cart_items cart = []"
    by blast
  with h1 ni fresh show ?thesis by simp
qed

section \<open>Requests without items\<close>

text \<open>
  C10. A request whose \<open>items\<close> is absent or empty: whatever else happens, the handler makes
  no \<open>generate\<close> call, no \<open>addLineItems\<close> call and does not consult the feature flag. When the
  region resolves and the customer, if any, is found, the transaction commits: the
  request succeeds, the new row is in the store with the attributes of \<open>toCreate\<close>, the
  calls are the listing, the customer fetch if any, the creation and the read, and on an
  unused identifier the cart stored and returned has no line items.
\<close>

theorem no_items_no_item_calls:
  assumes "no_items req"
  shows "(\<forall>ev\<in>set (calls (snd (create_cart d req (start s)))).
            \<not> is_generate ev \<and> \<not> is_attach ev \<and> \<not> is_flag ev) \<and>
         (\<forall>region. resolve_region (validatedBody req) (regions d) = Inr (Some region) \<and>
              customer_ok d req \<longrightarrow>
            (\<exists>cart w'. create_cart d req (start s) = (Inr cart, w') \<and>
               carts (db w') (cart_id cart) = Some (final_toCreate d req region) \<and>
               line_items (db w') = line_items s \<and>
               calls w' = RegionList # customer_calls req @
                 [CartCreate (final_toCreate d req region), RetrieveWithTotals (cart_id cart)] \<and>
               (fresh_id d s \<longrightarrow>
                  cart_items cart = [] \<and> items_of (db w') (cart_id cart) = [])))"
proof (intro conjI allI impI)
  show "\<forall>ev\<in>set (calls (snd (create_cart d req (start s)))).
            \<not> is_generate ev \<and> \<not> is_attach ev \<and> \<not> is_flag ev"
  proof (cases rule: create_cart_cases [of d req "start s"])
    case (prepare_failed e pre)
    then show ?thesis by auto
  next
    case (no_items region)
    then show ?thesis
      by (auto simp: create_cart_no_items)
  next
    case (generate_failed region its)
    with assms show ?thesis by (auto simp: no_items_def)
  next
    case (attach region its)
    with assms show ?thesis by (auto simp: no_items_def)
  qed
next
  fix region
  assume h: "resolve_region (validatedBody req) (regions d) = Inr (Some region) \<and>
              customer_ok d req"
  then have region: "resolve_region (validatedBody req) (regions d) = Inr (Some region)"
    and ok: "customer_ok d req" by simp_all
  show "\<exists>cart w'. create_cart d req (start s) = (Inr cart, w') \<and>
               carts (db w') (cart_id cart) = Some (final_toCreate d req region) \<and>
               line_items (db w') = line_items s \<and>
               calls w' = RegionList # customer_calls req @
                 [CartCreate (final_toCreate d req region), RetrieveWithTotals (cart_id cart)] \<and>
               (fresh_id d s \<longrightarrow>
                  cart_items cart = [] \<and> items_of (db w') (cart_id cart) = [])"
    by (simp add: create_cart_no_items [OF region ok assms] with_cart_def fresh_id_def
        items_of_def)
qed

theorem no_items_no_item_calls_witness:
  "no_items (guest (plain_body\<lparr>body_items := Some []\<rparr>)) \<and>
   fresh_id (shop True) empty_store \<and>
   \<not> list_ex is_generate
       (calls (snd (create_cart (shop True) (guest (plain_body\<lparr>body_items := Some []\<rparr>))
          (start empty_store)))) \<and>
   \<not> list_ex is_attach
       (calls (snd (create_cart (shop True) (guest (plain_body\<lparr>body_items := Some []\<rparr>))
          (start empty_store)))) \<and>
   \<not> list_ex is_flag
       (calls (snd (create_cart (shop True) (guest (plain_body\<lparr>body_items := Some []\<rparr>))
          (start empty_store)))) \<and>
   (\<exists>cart w'. create_cart (shop True) (guest (plain_body\<lparr>body_items := Some []\<rparr>))
        (start empty_store) = (Inr cart, w') \<and>
      cart_id cart = ''cart_1'' \<and> cart_items cart = [] \<and>
      carts (db w') ''cart_1'' \<noteq> None \<and> items_of (db w') ''cart_1'' = [])"
proof -
  let ?req = "guest (plain_body\<lparr>body_items := Some []\<rparr>)"
  have h: "no_items ?req" by (simp add: no_items_def shop_defs)
  have region: "resolve_region (validatedBody ?req) (regions (shop True)) = Inr (Some shop_region)"
    by (simp add: resolve_region_def shop_defs)
  have ok: "customer_ok (shop True) ?req"
    by (simp add: customer_ok_def truthy_def user_customer_def shop_defs)
  have fresh: "fresh_id (shop True) empty_store"
    by (simp add: fresh_id_def items_of_def shop_defs)
  note main = no_items_no_item_calls [OF h, of "shop True" empty_store]
  from main have quiet: "\<forall>ev\<in>set (calls (snd (create_cart (shop True) ?req (start empty_store)))).
            \<not> is_generate ev \<and> \<not> is_attach ev \<and> \<not> is_flag ev"
    by blast
  from main region ok fresh obtain cart w' where
    run: "create_cart (shop True) ?req (start empty_store) = (Inr cart, w')"
    and row: "carts (db w') (cart_id cart) = Some (final_toCreate (shop True) ?req shop_region)"
    and tr: "calls w' = RegionList # customer_calls ?req @
                 [CartCreate (final_toCreate (shop True) ?req shop_region),
                  RetrieveWithTotals (cart_id cart)]"
    and empty: "cart_items cart = []" "items_of (db w') (cart_id cart) = []"
    by blast
  from create_cart_persisted(1) [OF run region] have cid: "cart_id cart = ''cart_1''"
    by (simp add: shop_def)
  from quiet h fresh run row empty cid show ?thesis
    by (auto simp: list_ex_iff)
qed

end
